theory Spec2Isabelle
  imports Complex_Main
begin

section \<open>Look-up table with linear interpolation (LookUpTable.h)\<close>

text \<open>
  The class template \<^verbatim>\<open>utl::LookUpTable<T>\<close> is embedded twice.  In this section the
  scalar type is read as an exact real number: this reading carries the properties of the
  control flow, the policies, the errors and the state, in which no rounding takes part.
  The next section embeds the instance \<^verbatim>\<open>LookUpTable<double>\<close>, the one the program uses, with
  the rounding of every operation; it decides what depends on the arithmetic.
  Exceptions and the undefined conversions and dereferences of the source are values of
  the type \<open>error\<close>.  The members \<^verbatim>\<open>table_\<close>, \<^verbatim>\<open>min_\<close>, \<^verbatim>\<open>max_\<close>, \<^verbatim>\<open>step_\<close>, \<^verbatim>\<open>outbounds_\<close>
  carry the suffix \<open>_m\<close>, since a name may not end in an underscore.
\<close>

datatype OutOfBounds = Fail | BoundValue | Zero

datatype error =
    UninitializedTable    \<comment> \<open>\<^verbatim>\<open>std::out_of_range("Uninitialized table. Call create() before use.")\<close>\<close>
  | OutOfBoundAccess      \<comment> \<open>\<^verbatim>\<open>std::out_of_range("Out of bound access")\<close>\<close>
  | UndefinedConversion   \<comment> \<open>a negative value converted to \<^verbatim>\<open>size_t\<close>\<close>
  | NullDereference       \<comment> \<open>\<^verbatim>\<open>*p.get()\<close> on an empty \<^verbatim>\<open>shared_ptr\<close>\<close>

record LookUpTable =
  table_m :: "(real \<times> real) list"
  min_m :: real
  max_m :: real
  step_m :: real
  outbounds_m :: OutOfBounds

text \<open>\<^verbatim>\<open>floor\<close> of \<^verbatim>\<open><cmath>\<close>: the result is again a scalar.\<close>

definition floor_T :: "real \<Rightarrow> real" where
  "floor_T v = of_int \<lfloor>v\<rfloor>"

text \<open>
  Conversion of a scalar to \<^verbatim>\<open>size_t\<close> (implicit at line 111, \<^verbatim>\<open>static_cast\<close> at line
  177).  It truncates towards zero and is undefined when the truncated value is negative.
  The upper end of \<^verbatim>\<open>size_t\<close> and the memory a vector may take are not modelled:
  sizes are natural numbers.
\<close>

definition to_size_t :: "real \<Rightarrow> error + nat" where
  "to_size_t v = (if v \<le> - 1 then Inl UndefinedConversion else Inr (nat \<lfloor>v\<rfloor>))"

text \<open>\<^verbatim>\<open>std::vector::resize\<close>: keeps a prefix, appends value-initialised pairs.\<close>

definition resize :: "nat \<Rightarrow> (real \<times> real) list \<Rightarrow> (real \<times> real) list" where
  "resize n xs = take n xs @ replicate (n - length xs) (0, 0)"

text \<open>The default constructor. The members \<^verbatim>\<open>min_\<close>, \<^verbatim>\<open>max_\<close>, \<^verbatim>\<open>step_\<close> are left
  uninitialised by the source; their indeterminate values are the parameters.\<close>

definition LookUpTable_default :: "real \<Rightarrow> real \<Rightarrow> real \<Rightarrow> LookUpTable" where
  "LookUpTable_default u1 u2 u3 =
     \<lparr>table_m = [], min_m = u1, max_m = u2, step_m = u3, outbounds_m = Zero\<rparr>"

text \<open>
  The loop of \<^verbatim>\<open>create\<close> (lines 114 to 118), from index \<open>i\<close> on.  The second component
  of the state records, in order, the arguments at which \<open>f\<close> has been called.
\<close>

function create_loop ::
  "real \<Rightarrow> real \<Rightarrow> (real \<Rightarrow> real) \<Rightarrow> nat \<Rightarrow> (real \<times> real) list \<times> real list
     \<Rightarrow> (real \<times> real) list \<times> real list" where
  "create_loop mn st f i (tbl, calls) =
     (if i < length tbl then
        let tbl1 = tbl[i := (mn + real i * st, snd (tbl ! i))];
            arg = fst (tbl1 ! i);
            tbl2 = tbl1[i := (fst (tbl1 ! i), f arg)]
        in create_loop mn st f (Suc i) (tbl2, calls @ [arg])
      else (tbl, calls))"
  by pat_completeness auto
termination
  by (relation "measure (\<lambda>(mn, st, f, i, tbl, calls). length tbl - i)") auto

declare create_loop.simps [simp del]

text \<open>\<^verbatim>\<open>create\<close>: the returned flag, the table object after the call, and the calls of \<open>f\<close>.\<close>

definition create ::
  "real \<Rightarrow> real \<Rightarrow> real \<Rightarrow> (real \<Rightarrow> real) \<Rightarrow> LookUpTable
     \<Rightarrow> error + (bool \<times> LookUpTable \<times> real list)" where
  "create mn mx st f t =
     (if mn > mx \<or> st = 0 then Inr (False, t, [])
      else
        let t1 = t\<lparr>min_m := mn, max_m := mx, step_m := st\<rparr> in
        case to_size_t (floor_T ((max_m t1 - min_m t1) / step_m t1) + 1) of
          Inl err \<Rightarrow> Inl err
        | Inr tableSize \<Rightarrow>
            let (tbl, calls) =
                  create_loop (min_m t1) (step_m t1) f 0 (resize tableSize (table_m t1), [])
            in Inr (True, t1\<lparr>table_m := tbl\<rparr>, calls))"

text \<open>The constructor that creates the table; \<open>None\<close> is the omitted last argument.\<close>

definition LookUpTable_ctor ::
  "real \<Rightarrow> real \<Rightarrow> real \<Rightarrow> (real \<Rightarrow> real) \<Rightarrow> OutOfBounds option
     \<Rightarrow> real \<Rightarrow> real \<Rightarrow> real \<Rightarrow> error + LookUpTable" where
  "LookUpTable_ctor mn mx st f outbounds u1 u2 u3 =
     (let t = \<lparr>table_m = [], min_m = u1, max_m = u2, step_m = u3,
                outbounds_m = (case outbounds of None \<Rightarrow> Zero | Some b \<Rightarrow> b)\<rparr>
      in case create mn mx st f t of
           Inl err \<Rightarrow> Inl err
         | Inr (ok, t', calls) \<Rightarrow> Inr t')"

definition empty :: "LookUpTable \<Rightarrow> bool" where
  "empty t = (table_m t = [])"

text \<open>\<^verbatim>\<open>operator()\<close>, the query the specification calls \<open>evaluate\<close>.\<close>

definition operator_call :: "LookUpTable \<Rightarrow> real \<Rightarrow> error + real" where
  "operator_call t x =
     (if table_m t = [] then Inl UninitializedTable
      else
        let maxIndex = length (table_m t) - 1 in
        if x < min_m t \<or> x > max_m t then
          (case outbounds_m t of
             Zero \<Rightarrow> Inr 0
           | BoundValue \<Rightarrow>
               if x < min_m t then Inr (snd (table_m t ! 0))
               else Inr (snd (table_m t ! maxIndex))
           | Fail \<Rightarrow> Inl OutOfBoundAccess)
        else
          (case to_size_t (floor_T ((x - min_m t) / step_m t)) of
             Inl err \<Rightarrow> Inl err
           | Inr k \<Rightarrow>
               let i = min k maxIndex in
               if i < maxIndex then
                 Inr (snd (table_m t ! i)
                      + (snd (table_m t ! (i + 1)) - snd (table_m t ! i)) * (x - fst (table_m t ! i))
                          / (fst (table_m t ! (i + 1)) - fst (table_m t ! i)))
               else Inr (snd (table_m t ! i))))"

text \<open>
  The words of the specification for the table: the sample points
  \<open>x\<^sub>i = min + i \<cdot> step\<close>, the number \<open>N = floor((max - min) / step) + 1\<close> of samples, and the
  table of the pairs \<open>(x\<^sub>i, f x\<^sub>i)\<close>.
\<close>

definition sample_x :: "real \<Rightarrow> real \<Rightarrow> nat \<Rightarrow> real" where
  "sample_x mn st i = mn + real i * st"

definition table_size :: "real \<Rightarrow> real \<Rightarrow> real \<Rightarrow> int" where
  "table_size mn mx st = \<lfloor>(mx - mn) / st\<rfloor> + 1"

definition sample_table :: "real \<Rightarrow> real \<Rightarrow> (real \<Rightarrow> real) \<Rightarrow> nat \<Rightarrow> (real \<times> real) list" where
  "sample_table mn st f n = map (\<lambda>i. (sample_x mn st i, f (sample_x mn st i))) [0..<n]"

section \<open>The look-up table in binary64 arithmetic (LookUpTable.h at \<^verbatim>\<open>T = double\<close>)\<close>

text \<open>
  A finite \<^verbatim>\<open>double\<close> is the real number it denotes.  \<open>rnd\<close> rounds a real number to the
  nearest number with a significand of 53 bits, ties to the even significand: it looks for
  the unit \<open>q\<close>, a power of two, with \<open>2\<^sup>5\<^sup>2 \<cdot> q \<le> |v| < 2\<^sup>5\<^sup>3 \<cdot> q\<close>, and rounds \<open>v / q\<close> to an
  integer.  The search starts at \<open>q = 1\<close> and has 2200 steps, more than the exponent range
  of the format needs.  A literal of the source such as \<^verbatim>\<open>0.1\<close> is \<open>rnd (1/10)\<close>.
\<close>

definition round_half_even :: "real \<Rightarrow> int" where
  "round_half_even m =
     (let fl = \<lfloor>m\<rfloor>; r = m - of_int fl in
      if r < 1/2 then fl else if 1/2 < r then fl + 1 else if even fl then fl else fl + 1)"

fun ulp_search :: "nat \<Rightarrow> real \<Rightarrow> real \<Rightarrow> real" where
  "ulp_search 0 q a = q"
| "ulp_search (Suc n) q a =
     (if a < 4503599627370496 * q then ulp_search n (q / 2) a
      else if 9007199254740992 * q \<le> a then ulp_search n (2 * q) a
      else q)"

definition rnd :: "real \<Rightarrow> real" where
  "rnd v = (if v = 0 then 0
            else let q = ulp_search 2200 1 \<bar>v\<bar> in of_int (round_half_even (v / q)) * q)"

text \<open>
  An operation on doubles computes the exact result and rounds it once (no fused
  operation, no wider intermediate format).  The model follows an execution while its
  values are zero or normal finite numbers: when the exact result is in the subnormal range,
  when the rounded result overflows, and when a divisor is zero, so that the program
  continues with a subnormal number, an infinity or a NaN, the outcome is \<open>Unmodelled\<close>.
\<close>

datatype error_d =
    Err error     \<comment> \<open>an exception or an undefined operation of the source\<close>
  | Unmodelled    \<comment> \<open>the program goes on with a subnormal number, an infinity or a NaN\<close>

definition fin :: "real \<Rightarrow> error_d + real" where
  "fin v = (if v \<noteq> 0 \<and> \<bar>v\<bar> < 1 / 2 ^ 1022 then Inl Unmodelled
            else if 2 ^ 1024 \<le> \<bar>rnd v\<bar> then Inl Unmodelled
            else Inr (rnd v))"

definition dadd :: "real \<Rightarrow> real \<Rightarrow> error_d + real" where
  "dadd x y = fin (x + y)"

definition dsub :: "real \<Rightarrow> real \<Rightarrow> error_d + real" where
  "dsub x y = fin (x - y)"

definition dmul :: "real \<Rightarrow> real \<Rightarrow> error_d + real" where
  "dmul x y = fin (x * y)"

definition ddiv :: "real \<Rightarrow> real \<Rightarrow> error_d + real" where
  "ddiv x y = (if y = 0 then Inl Unmodelled else fin (x / y))"

text \<open>
  Conversion of a double to \<^verbatim>\<open>size_t\<close>, taken as 64 bits wide: undefined when the truncated
  value is negative or does not fit.  The conversion of an index to a double, at line 116,
  is \<open>rnd (real i)\<close>.  \<^verbatim>\<open>floor\<close> is exact on doubles, so \<open>floor_T\<close> serves as it is.  The
  memory a vector may take is not modelled.
\<close>

definition to_size_t_d :: "real \<Rightarrow> error_d + nat" where
  "to_size_t_d v = (if v \<le> - 1 \<or> 2 ^ 64 \<le> v then Inl (Err UndefinedConversion)
                    else Inr (nat \<lfloor>v\<rfloor>))"

text \<open>The loop of \<^verbatim>\<open>create\<close>, lines 114 to 118, with the calls of \<open>f\<close> as before.\<close>

function create_loop_d ::
  "real \<Rightarrow> real \<Rightarrow> (real \<Rightarrow> real) \<Rightarrow> nat \<Rightarrow> (real \<times> real) list \<times> real list
     \<Rightarrow> error_d + (real \<times> real) list \<times> real list" where
  "create_loop_d mn st f i (tbl, calls) =
     (if i < length tbl then
        case dmul (rnd (real i)) st of
          Inl err \<Rightarrow> Inl err
        | Inr p \<Rightarrow>
            (case dadd mn p of
               Inl err \<Rightarrow> Inl err
             | Inr x \<Rightarrow>
                 let tbl1 = tbl[i := (x, snd (tbl ! i))];
                     arg = fst (tbl1 ! i);
                     tbl2 = tbl1[i := (fst (tbl1 ! i), f arg)]
                 in create_loop_d mn st f (Suc i) (tbl2, calls @ [arg]))
      else Inr (tbl, calls))"
  by pat_completeness auto
termination
  by (relation "measure (\<lambda>(mn, st, f, i, tbl, calls). length tbl - i)") auto

declare create_loop_d.simps [simp del]

text \<open>\<^verbatim>\<open>create\<close>, lines 103 to 121.\<close>

definition create_d ::
  "real \<Rightarrow> real \<Rightarrow> real \<Rightarrow> (real \<Rightarrow> real) \<Rightarrow> LookUpTable
     \<Rightarrow> error_d + (bool \<times> LookUpTable \<times> real list)" where
  "create_d mn mx st f t =
     (if mn > mx \<or> st = 0 then Inr (False, t, [])
      else
        let t1 = t\<lparr>min_m := mn, max_m := mx, step_m := st\<rparr> in
        case dsub (max_m t1) (min_m t1) of
          Inl err \<Rightarrow> Inl err
        | Inr d \<Rightarrow>
            (case ddiv d (step_m t1) of
               Inl err \<Rightarrow> Inl err
             | Inr q \<Rightarrow>
                 (case dadd (floor_T q) 1 of
                    Inl err \<Rightarrow> Inl err
                  | Inr sz \<Rightarrow>
                      (case to_size_t_d sz of
                         Inl err \<Rightarrow> Inl err
                       | Inr tableSize \<Rightarrow>
                           (case create_loop_d (min_m t1) (step_m t1) f 0
                                   (resize tableSize (table_m t1), []) of
                              Inl err \<Rightarrow> Inl err
                            | Inr (tbl, calls) \<Rightarrow> Inr (True, t1\<lparr>table_m := tbl\<rparr>, calls))))))"

text \<open>
  The expression of lines 181 to 183 for the cell from \<open>(x0, y0)\<close> to \<open>(x1, y1)\<close>: the
  product, then the quotient, then the sum.
\<close>

definition interpolate_d :: "real \<Rightarrow> real \<Rightarrow> real \<Rightarrow> real \<Rightarrow> real \<Rightarrow> error_d + real" where
  "interpolate_d x0 y0 x1 y1 x =
     (case dsub y1 y0 of
        Inl err \<Rightarrow> Inl err
      | Inr dy \<Rightarrow>
          (case dsub x x0 of
             Inl err \<Rightarrow> Inl err
           | Inr dx \<Rightarrow>
               (case dmul dy dx of
                  Inl err \<Rightarrow> Inl err
                | Inr num \<Rightarrow>
                    (case dsub x1 x0 of
                       Inl err \<Rightarrow> Inl err
                     | Inr gap \<Rightarrow>
                         (case ddiv num gap of
                            Inl err \<Rightarrow> Inl err
                          | Inr quo \<Rightarrow> dadd y0 quo)))))"

text \<open>\<^verbatim>\<open>operator()\<close>, lines 144 to 190.\<close>

definition operator_call_d :: "LookUpTable \<Rightarrow> real \<Rightarrow> error_d + real" where
  "operator_call_d t x =
     (if table_m t = [] then Inl (Err UninitializedTable)
      else
        let maxIndex = length (table_m t) - 1 in
        if x < min_m t \<or> x > max_m t then
          (case outbounds_m t of
             Zero \<Rightarrow> Inr 0
           | BoundValue \<Rightarrow>
               if x < min_m t then Inr (snd (table_m t ! 0))
               else Inr (snd (table_m t ! maxIndex))
           | Fail \<Rightarrow> Inl (Err OutOfBoundAccess))
        else
          (case dsub x (min_m t) of
             Inl err \<Rightarrow> Inl err
           | Inr d \<Rightarrow>
               (case ddiv d (step_m t) of
                  Inl err \<Rightarrow> Inl err
                | Inr q \<Rightarrow>
                    (case to_size_t_d (floor_T q) of
                       Inl err \<Rightarrow> Inl err
                     | Inr k \<Rightarrow>
                         let i = min k maxIndex in
                         if i < maxIndex then
                           interpolate_d (fst (table_m t ! i)) (snd (table_m t ! i))
                             (fst (table_m t ! (i + 1))) (snd (table_m t ! (i + 1))) x
                         else Inr (snd (table_m t ! i))))))"

text \<open>
  Two functions to tabulate: the square \<^verbatim>\<open>[](double x) { return x * x; }\<close>, and the step
  \<^verbatim>\<open>[](double x) { return x < 1.5 ? 0.0 : 1.0; }\<close>, which is monotonic non-decreasing.
\<close>

definition square_d :: "real \<Rightarrow> real" where
  "square_d x = rnd (x * x)"

definition step_d :: "real \<Rightarrow> real" where
  "step_d x = (if x < 3/2 then 0 else 1)"

section \<open>The friction model (mj_friction.h, mj_friction.cpp)\<close>

text \<open>
  The struct \<^verbatim>\<open>JointValSet\<close>.  The members \<^verbatim>\<open>value\<close>, \<^verbatim>\<open>min\<close> and \<^verbatim>\<open>max\<close> are renamed
  \<open>value_j\<close>, \<open>min_j\<close> and \<open>max_j\<close>.  \<^verbatim>\<open>firstTime\<close> is a \<^verbatim>\<open>double\<close> in the source and is
  read as a condition by comparison with zero.  The shared pointer \<^verbatim>\<open>dryFricTable\<close> is
  \<open>None\<close> when it owns no table; a query never changes a table, so the pointer is
  modelled by the table it points to.
\<close>

record JointValSet =
  value_j :: real
  velocity :: real
  torqueForce :: real
  Ts :: real
  Tc :: real
  Tsc :: real
  Tv :: real
  wbrk :: real
  Kf :: real
  Bf :: real
  e :: real
  p_prev :: real
  lambArg_th :: real
  dt :: real
  Z :: real
  den :: real
  w_ast :: real
  T_ast :: real
  min_j :: real
  max_j :: real
  LUTstep :: real
  firstTime :: real
  dry :: real
  dryFricTable :: "LookUpTable option"

text \<open>
  Default initialisation of a \<^verbatim>\<open>JointValSet\<close>: the default member initialisers run in the
  order of declaration; the members without one are indeterminate and are the parameters.
\<close>

definition JointValSet_init ::
  "real \<Rightarrow> real \<Rightarrow> real \<Rightarrow> real \<Rightarrow> real \<Rightarrow> real \<Rightarrow> real \<Rightarrow> real \<Rightarrow> JointValSet" where
  "JointValSet_init u_value u_velocity u_torqueForce u_e u_p_prev u_w_ast u_T_ast u_firstTime =
     (let Ts' = 2.5;
          Tc' = 0.2;
          Tsc' = Ts' - Tc';
          Tv' = 4.5;
          wbrk' = 0.04;
          Kf' = 5000;
          Bf' = 50;
          lambArg_th' = - 0.001;
          dt' = 0.001;
          Z' = 1 / (Kf' * dt' + Bf');
          den' = 1 + Z' * Tv';
          min' = Z' * Ts';
          max' = Z' * Tc' - wbrk' * den' * ln ((- wbrk') / Z' * den' / Tsc' * lambArg_th');
          LUTstep' = 0.001
      in \<lparr>value_j = u_value, velocity = u_velocity, torqueForce = u_torqueForce,
          Ts = Ts', Tc = Tc', Tsc = Tsc', Tv = Tv', wbrk = wbrk', Kf = Kf', Bf = Bf',
          e = u_e, p_prev = u_p_prev, lambArg_th = lambArg_th', dt = dt', Z = Z', den = den',
          w_ast = u_w_ast, T_ast = u_T_ast, min_j = min', max_j = max', LUTstep = LUTstep',
          firstTime = u_firstTime, dry = 0.0, dryFricTable = None\<rparr>)"

text \<open>\<^verbatim>\<open>(*set.dryFricTable.get())(x)\<close>: dereference, then query.\<close>

definition dryFricTable_call :: "LookUpTable option \<Rightarrow> real \<Rightarrow> error + real" where
  "dryFricTable_call p x = (case p of None \<Rightarrow> Inl NullDereference | Some t \<Rightarrow> operator_call t x)"

text \<open>Lines 24 to 37 of \<^verbatim>\<open>setFrictionForces\<close>: the choice of the local \<^verbatim>\<open>Tf\<close>.\<close>

definition setFrictionForces_Tf :: "JointValSet \<Rightarrow> error + real" where
  "setFrictionForces_Tf s =
     (if T_ast s > Ts s then
        (case dryFricTable_call (dryFricTable s) (w_ast s) of
           Inl err \<Rightarrow> Inl err
         | Inr r \<Rightarrow> Inr (r + (Tc s + Tv s * w_ast s) / den s))
      else if T_ast s < - Ts s then
        (case dryFricTable_call (dryFricTable s) (- w_ast s) of
           Inl err \<Rightarrow> Inl err
         | Inr r \<Rightarrow> Inr (- r + (- Tc s + Tv s * w_ast s) / den s))
      else Inr (T_ast s))"

text \<open>
  \<^verbatim>\<open>setFrictionForces\<close>: the returned value or the exception, and the struct after the
  call (the argument is a reference, so what was written before an exception stays).
\<close>

definition setFrictionForces :: "JointValSet \<Rightarrow> (error + real) \<times> JointValSet" where
  "setFrictionForces s =
     (let w = (if firstTime s \<noteq> 0 then 0 else (value_j s - p_prev s) / dt s);
          s1 = (if firstTime s \<noteq> 0 then s\<lparr>firstTime := 0\<rparr> else s);
          s2 = s1\<lparr>w_ast := w + Z s1 * Kf s1 * e s1\<rparr>;
          s3 = s2\<lparr>T_ast := w_ast s2 / Z s2\<rparr>
      in case setFrictionForces_Tf s3 of
           Inl err \<Rightarrow> (Inl err, s3)
         | Inr Tf \<Rightarrow>
             let s4 = s3\<lparr>e := Z s3 * (Bf s3 * e s3 + Tf * dt s3)\<rparr>;
                 s5 = s4\<lparr>p_prev := value_j s4\<rparr>;
                 s6 = s5\<lparr>torqueForce := torqueForce s5 - Tf\<rparr>
             in (Inr (torqueForce s6), s6))"

text \<open>
  The lambda \<^verbatim>\<open>dry\<close> of \<^verbatim>\<open>createTable\<close> with its captures.  \<^verbatim>\<open>utl::LambertW<0>\<close> is
  outside the repository and is the parameter \<open>W0\<close>.
\<close>

definition createTable_dry ::
  "(real \<Rightarrow> real) \<Rightarrow> real \<Rightarrow> real \<Rightarrow> real \<Rightarrow> real \<Rightarrow> real \<Rightarrow> real \<Rightarrow> real" where
  "createTable_dry W0 Tsc' Tc' wbrk' Z' den' w_ast' =
     (let lambArg = (- Z') / wbrk' * Tsc' / den' * exp ((Z' * Tc' - w_ast') / (wbrk' * den'))
      in - (wbrk' / Z') * W0 lambArg)"

text \<open>\<^verbatim>\<open>createTable\<close>; \<open>u1\<close>, \<open>u2\<close>, \<open>u3\<close> are the indeterminate members of the new table.\<close>

definition createTable ::
  "(real \<Rightarrow> real) \<Rightarrow> real \<Rightarrow> real \<Rightarrow> real \<Rightarrow> JointValSet \<Rightarrow> error + JointValSet" where
  "createTable W0 u1 u2 u3 s =
     (let dry' = createTable_dry W0 (Tsc s) (Tc s) (wbrk s) (Z s) (den s) in
      case LookUpTable_ctor (min_j s) (max_j s) (LUTstep s) dry' None u1 u2 u3 of
        Inl err \<Rightarrow> Inl err
      | Inr t \<Rightarrow> Inr (s\<lparr>dryFricTable := Some t\<rparr>))"

section \<open>Properties of the look-up table: control flow, policies and errors\<close>

subsection \<open>What \<open>create\<close> stores\<close>

lemma create_loop_eq:
  "create_loop mn st f i (tbl, calls) =
     (take i tbl @ map (\<lambda>k. (mn + real k * st, f (mn + real k * st))) [i..<length tbl],
      calls @ map (\<lambda>k. mn + real k * st) [i..<length tbl])"
proof (induction "length tbl - i" arbitrary: i tbl calls)
  case 0
  then show ?case by (subst create_loop.simps) simp
next
  case (Suc d)
  then have lt: "i < length tbl" by simp
  let ?x = "mn + real i * st"
  let ?tbl2 = "tbl[i := (?x, f ?x)]"
  have d: "d = length ?tbl2 - Suc i"
    using Suc.hyps(2) by simp
  have step: "create_loop mn st f i (tbl, calls) = create_loop mn st f (Suc i) (?tbl2, calls @ [?x])"
    using lt by (subst create_loop.simps) (simp add: Let_def)
  have tk: "take (Suc i) ?tbl2 = take i tbl @ [(?x, f ?x)]"
    using lt by (simp add: take_Suc_conv_app_nth)
  have up: "[i..<length tbl] = i # [Suc i..<length tbl]"
    using lt by (simp add: upt_conv_Cons)
  show ?case
    unfolding step Suc.hyps(1)[OF d] tk up by simp
qed

lemma length_resize: "length (resize n xs) = n"
  by (simp add: resize_def)

lemma create_loop_resize:
  "create_loop mn st f 0 (resize n xs, []) =
     (sample_table mn st f n, map (sample_x mn st) [0..<n])"
  by (simp add: create_loop_eq length_resize sample_table_def sample_x_def)

lemma to_size_t_table_size:
  "to_size_t (floor_T ((mx - mn) / st) + 1) =
     (if table_size mn mx st < 0 then Inl UndefinedConversion
      else Inr (nat (table_size mn mx st)))"
proof -
  let ?q = "(mx - mn) / st"
  have "(of_int \<lfloor>?q\<rfloor> + 1 :: real) = of_int (\<lfloor>?q\<rfloor> + 1)" by simp
  then have fl: "\<lfloor>(of_int \<lfloor>?q\<rfloor> + 1 :: real)\<rfloor> = \<lfloor>?q\<rfloor> + 1" by (metis floor_of_int)
  have le: "(of_int \<lfloor>?q\<rfloor> + 1 \<le> (- 1 :: real)) = (\<lfloor>?q\<rfloor> + 1 < 0)"
    by linarith
  show ?thesis
    unfolding to_size_t_def floor_T_def table_size_def fl le by (rule refl)
qed

lemma create_fail:
  "mn > mx \<or> st = 0 \<Longrightarrow> create mn mx st f t = Inr (False, t, [])"
  by (simp add: create_def)

lemma create_run:
  assumes "\<not> (mn > mx \<or> st = 0)"
  shows "create mn mx st f t =
     (if table_size mn mx st < 0 then Inl UndefinedConversion
      else Inr (True,
                t\<lparr>min_m := mn, max_m := mx, step_m := st,
                  table_m := sample_table mn st f (nat (table_size mn mx st))\<rparr>,
                map (sample_x mn st) [0..<nat (table_size mn mx st)]))"
  using assms
  by (simp add: create_def Let_def to_size_t_table_size create_loop_resize)

lemma table_size_pos: "mn \<le> mx \<Longrightarrow> 0 < st \<Longrightarrow> 1 \<le> table_size mn mx st"
  by (simp add: table_size_def)

lemma to_size_t_floor:
  "to_size_t (floor_T q) = (if \<lfloor>q\<rfloor> < 0 then Inl UndefinedConversion else Inr (nat \<lfloor>q\<rfloor>))"
proof -
  have le: "((of_int \<lfloor>q\<rfloor> :: real) \<le> - 1) = (\<lfloor>q\<rfloor> < 0)"
    by linarith
  show ?thesis
    unfolding to_size_t_def floor_T_def floor_of_int le by (rule refl)
qed



subsection \<open>Queries outside the domain\<close>



subsection \<open>Queries on a table that was never built\<close>

text \<open>
  Claim C4.  A query on an empty table raises the uninitialised-table error, whatever the
  argument and the policy.  A table is empty when it is constructed, under either
  constructor's initial state, and a \<open>create\<close> that returns false leaves it as it was; so
  a table on which no \<open>create\<close> has succeeded is empty.
\<close>

theorem uninitialized_table_raises:
  "(empty t \<longrightarrow> operator_call t x = Inl UninitializedTable) \<and>
   empty (LookUpTable_default u1 u2 u3) \<and>
   empty \<lparr>table_m = [], min_m = u1, max_m = u2, step_m = u3, outbounds_m = p\<rparr> \<and>
   (\<forall>t' calls. create mn mx st f t = Inr (False, t', calls) \<longrightarrow> t' = t)"
proof -
  have a: "empty t \<longrightarrow> operator_call t x = Inl UninitializedTable"
    by (simp add: empty_def operator_call_def)
  have b: "empty (LookUpTable_default u1 u2 u3)"
    by (simp add: empty_def LookUpTable_default_def)
  have c: "empty \<lparr>table_m = [], min_m = u1, max_m = u2, step_m = u3, outbounds_m = p\<rparr>"
    by (simp add: empty_def)
  have d: "\<forall>t' calls. create mn mx st f t = Inr (False, t', calls) \<longrightarrow> t' = t"
  proof (cases "mn > mx \<or> st = 0")
    case True
    then show ?thesis using create_fail[OF True, of f t] by simp
  next
    case False
    then show ?thesis using create_run[OF False, of f t] by simp
  qed
  show ?thesis using a b c d by blast
qed

theorem uninitialized_table_raises_witness:
  "empty (LookUpTable_default 0 0 0) \<and>
   operator_call (LookUpTable_default 0 0 0) 5 = Inl UninitializedTable \<and>
   operator_call \<lparr>table_m = [], min_m = 0, max_m = 1, step_m = 1, outbounds_m = BoundValue\<rparr> 0
     = Inl UninitializedTable \<and>
   create 5 1 (1/10) id (LookUpTable_default 0 0 0) = Inr (False, LookUpTable_default 0 0 0, [])"
proof -
  have c: "create 5 1 (1/10) id (LookUpTable_default 0 0 0) = Inr (False, LookUpTable_default 0 0 0, [])"
    by (simp add: create_fail)
  show ?thesis
    using uninitialized_table_raises[of "LookUpTable_default 0 0 0" 5 0 0 0 Zero 5 1 "1/10" id]
      uninitialized_table_raises[of "\<lparr>table_m = [], min_m = 0, max_m = 1, step_m = 1, outbounds_m = BoundValue\<rparr>" 0 0 1 1 BoundValue]
      c
    by simp
qed

section \<open>The look-up table in binary64 arithmetic: what the program does\<close>

subsection \<open>Evaluation\<close>

lemma ulp_search_numeral:
  "ulp_search (numeral k) q a =
     (if a < 4503599627370496 * q then ulp_search (pred_numeral k) (q / 2) a
      else if 9007199254740992 * q \<le> a then ulp_search (pred_numeral k) (2 * q) a
      else q)"
  by (simp add: numeral_eq_Suc)

lemma replicate_numeral: "replicate (numeral k) x = x # replicate (pred_numeral k) x"
  by (simp add: numeral_eq_Suc)

lemmas dbl_eval = replicate_numeral rnd_def ulp_search_numeral round_half_even_def fin_def
  dadd_def dsub_def dmul_def ddiv_def to_size_t_d_def floor_T_def Let_def

lemmas create_d_eval = create_d_def create_loop_d.simps resize_def LookUpTable_default_def

lemmas operator_call_d_eval = operator_call_d_def interpolate_d_def

text \<open>The literals \<^verbatim>\<open>0.1\<close>, \<^verbatim>\<open>0.4\<close>, \<^verbatim>\<open>0.3\<close>, \<^verbatim>\<open>0.7\<close>, \<^verbatim>\<open>1.8\<close>, \<^verbatim>\<open>1.3\<close> and \<^verbatim>\<open>3.9\<close> as doubles.\<close>

lemma literals:
  "rnd (1/10) = 3602879701896397 / 36028797018963968"
  "rnd (2/5) = 3602879701896397 / 9007199254740992"
  "rnd (3/10) = 5404319552844595 / 18014398509481984"
  "rnd (7/10) = 3152519739159347 / 4503599627370496"
  "rnd (9/5) = 8106479329266893 / 4503599627370496"
  "rnd (13/10) = 5854679515581645 / 4503599627370496"
  "rnd (39/10) = 8782019273372467 / 2251799813685248"
  by (simp_all add: dbl_eval)

text \<open>\<^verbatim>\<open>create(0, 3.9, 1.3, f)\<close> with the identity: four samples, the last at \<open>3.9000000000000004\<close>.\<close>

lemma create_d_overshoot:
  "create_d 0 (rnd (39/10)) (rnd (13/10)) id (LookUpTable_default 0 0 0) =
     Inr (True,
      \<lparr>table_m =
         [(0, 0),
          (5854679515581645 / 4503599627370496, 5854679515581645 / 4503599627370496),
          (5854679515581645 / 2251799813685248, 5854679515581645 / 2251799813685248),
          (2195504818343117 / 562949953421312, 2195504818343117 / 562949953421312)],
       min_m = 0, max_m = 8782019273372467 / 2251799813685248,
       step_m = 5854679515581645 / 4503599627370496, outbounds_m = Zero\<rparr>,
      [0, 5854679515581645 / 4503599627370496, 5854679515581645 / 2251799813685248,
       2195504818343117 / 562949953421312])"
  unfolding literals by (simp add: create_d_eval dbl_eval)

lemma step_d_mono: "x \<le> y \<Longrightarrow> step_d x \<le> step_d y"
  by (simp add: step_d_def)

subsection \<open>Queries inside the domain\<close>

text \<open>
  Claim C1 holds of the interpolation as it is designed, and the program breaks it.
  \<^verbatim>\<open>create(0, 1, -2, f)\<close> passes the guard of line 105, which tests the step for zero only,
  stores no sample and returns true; the query at \<open>0.5\<close>, inside \<open>[min, max]\<close>, then raises
  the uninitialised-table error, where the claim has a value returned.
  After \<^verbatim>\<open>create(0, 3.9, 1.3, f)\<close> with the identity the last stored sample point is
  \<open>3.9000000000000004\<close>, above \<open>max\<close>; the query at \<open>3.9 = max\<close> lies below it, is put in the
  last cell all the same and returns the last stored value, where the claim has the
  interpolation between two stored samples returned.
\<close>

theorem lookup_inside_domain_binary64:
  "create_d 0 1 (- 2) id (LookUpTable_default 0 0 0) =
     Inr (True, \<lparr>table_m = [], min_m = 0, max_m = 1, step_m = - 2, outbounds_m = Zero\<rparr>, []) \<and>
   (0::real) \<le> 1/2 \<and> (1/2::real) \<le> 1 \<and>
   operator_call_d \<lparr>table_m = [], min_m = 0, max_m = 1, step_m = - 2, outbounds_m = Zero\<rparr> (1/2)
     = Inl (Err UninitializedTable) \<and>
   create_d 0 (rnd (39/10)) (rnd (13/10)) id (LookUpTable_default 0 0 0) =
     Inr (True,
      \<lparr>table_m =
         [(0, 0),
          (5854679515581645 / 4503599627370496, 5854679515581645 / 4503599627370496),
          (5854679515581645 / 2251799813685248, 5854679515581645 / 2251799813685248),
          (2195504818343117 / 562949953421312, 2195504818343117 / 562949953421312)],
       min_m = 0, max_m = 8782019273372467 / 2251799813685248,
       step_m = 5854679515581645 / 4503599627370496, outbounds_m = Zero\<rparr>,
      [0, 5854679515581645 / 4503599627370496, 5854679515581645 / 2251799813685248,
       2195504818343117 / 562949953421312]) \<and>
   0 \<le> rnd (39/10) \<and>
   rnd (39/10) < 2195504818343117 / 562949953421312 \<and>
   operator_call_d
      \<lparr>table_m =
         [(0, 0),
          (5854679515581645 / 4503599627370496, 5854679515581645 / 4503599627370496),
          (5854679515581645 / 2251799813685248, 5854679515581645 / 2251799813685248),
          (2195504818343117 / 562949953421312, 2195504818343117 / 562949953421312)],
       min_m = 0, max_m = 8782019273372467 / 2251799813685248,
       step_m = 5854679515581645 / 4503599627370496, outbounds_m = Zero\<rparr>
      (rnd (39/10))
     = Inr (2195504818343117 / 562949953421312)"
proof -
  have a: "create_d 0 1 (- 2) id (LookUpTable_default 0 0 0) =
     Inr (True, \<lparr>table_m = [], min_m = 0, max_m = 1, step_m = - 2, outbounds_m = Zero\<rparr>, [])"
    by (simp add: create_d_eval dbl_eval)
  have b: "operator_call_d \<lparr>table_m = [], min_m = 0, max_m = 1, step_m = - 2, outbounds_m = Zero\<rparr> (1/2)
     = Inl (Err UninitializedTable)"
    by (simp add: operator_call_d_def)
  have c: "0 \<le> rnd (39/10)" "rnd (39/10) < 2195504818343117 / 562949953421312"
    unfolding literals by simp_all
  have d: "operator_call_d
      \<lparr>table_m =
         [(0, 0),
          (5854679515581645 / 4503599627370496, 5854679515581645 / 4503599627370496),
          (5854679515581645 / 2251799813685248, 5854679515581645 / 2251799813685248),
          (2195504818343117 / 562949953421312, 2195504818343117 / 562949953421312)],
       min_m = 0, max_m = 8782019273372467 / 2251799813685248,
       step_m = 5854679515581645 / 4503599627370496, outbounds_m = Zero\<rparr>
      (rnd (39/10))
     = Inr (2195504818343117 / 562949953421312)"
    unfolding literals by (simp add: operator_call_d_eval dbl_eval)
  show ?thesis
    using a b c d create_d_overshoot by simp
qed

subsection \<open>The contract of \<open>create\<close>\<close>

text \<open>
  Claim C2 holds of \<open>create\<close> as it is designed, and the program breaks it.
  \<^verbatim>\<open>create(0, 1, -2, f)\<close> on a table of two samples passes the guard, empties the table and
  returns true: no sample \<open>x\<^sub>0 = min\<close> is stored, against the header of the class, which has
  \<open>f(min)\<close> always included.  \<^verbatim>\<open>create(0, 3.9, 1.3, f)\<close> computes the rounded quotient
  \<open>3.9 / 1.3 = 3\<close> and stores four samples, the last at \<open>3.9000000000000004 > max\<close>, while
  \<open>floor((max - min) / step) + 1\<close> is \<open>3\<close> for these two doubles, and the claim has
  \<open>x\<^sub>N\<^sub>-\<^sub>1 \<le> max\<close>.
\<close>

theorem create_binary64:
  "create_d 0 1 (- 2) id
      \<lparr>table_m = [(0, 0), (1, 1)], min_m = 0, max_m = 1, step_m = 1, outbounds_m = Zero\<rparr> =
     Inr (True, \<lparr>table_m = [], min_m = 0, max_m = 1, step_m = - 2, outbounds_m = Zero\<rparr>, []) \<and>
   create_d 0 (rnd (39/10)) (rnd (13/10)) id (LookUpTable_default 0 0 0) =
     Inr (True,
      \<lparr>table_m =
         [(0, 0),
          (5854679515581645 / 4503599627370496, 5854679515581645 / 4503599627370496),
          (5854679515581645 / 2251799813685248, 5854679515581645 / 2251799813685248),
          (2195504818343117 / 562949953421312, 2195504818343117 / 562949953421312)],
       min_m = 0, max_m = 8782019273372467 / 2251799813685248,
       step_m = 5854679515581645 / 4503599627370496, outbounds_m = Zero\<rparr>,
      [0, 5854679515581645 / 4503599627370496, 5854679515581645 / 2251799813685248,
       2195504818343117 / 562949953421312]) \<and>
   (0::real) \<le> rnd (39/10) \<and> 0 < rnd (13/10) \<and>
   \<lfloor>(rnd (39/10) - 0) / rnd (13/10)\<rfloor> + 1 = 3 \<and>
   rnd (39/10) < 2195504818343117 / 562949953421312"
proof -
  have a: "create_d 0 1 (- 2) id
      \<lparr>table_m = [(0, 0), (1, 1)], min_m = 0, max_m = 1, step_m = 1, outbounds_m = Zero\<rparr> =
     Inr (True, \<lparr>table_m = [], min_m = 0, max_m = 1, step_m = - 2, outbounds_m = Zero\<rparr>, [])"
    by (simp add: create_d_eval dbl_eval)
  have c: "(0::real) \<le> rnd (39/10)" "0 < rnd (13/10)"
    "\<lfloor>(rnd (39/10) - 0) / rnd (13/10)\<rfloor> + 1 = 3"
    "rnd (39/10) < 2195504818343117 / 562949953421312"
    unfolding literals by simp_all
  show ?thesis
    using a c create_d_overshoot by simp
qed

subsection \<open>The sample points\<close>

text \<open>
  Claim C5 holds of the interpolation as it is designed, and the program breaks it.
  \<^verbatim>\<open>create(0.25, 0.4, 0.1, f)\<close> with the square stores the samples at \<open>0.25\<close> and at
  \<open>x\<^sub>1 = 0.35\<close> with \<open>f(x\<^sub>1) = 0.12249999999999998\<close>.  The query at \<open>x\<^sub>1\<close> computes
  \<open>(x\<^sub>1 - min) / step = 0.9999999999999998\<close>, takes the cell \<open>0\<close> and returns the interpolation
  \<open>0.12249999999999997\<close>, not the stored \<open>f(x\<^sub>1)\<close>.
\<close>

theorem lookup_at_sample_point_binary64:
  "(1/4::real) < rnd (2/5) \<and> 0 < rnd (1/10) \<and>
   create_d (1/4) (rnd (2/5)) (rnd (1/10)) square_d (LookUpTable_default 0 0 0) =
     Inr (True,
      \<lparr>table_m =
         [(1 / 4, 1 / 16),
          (3152519739159347 / 9007199254740992, 8827055269646171 / 72057594037927936)],
       min_m = 1 / 4, max_m = 3602879701896397 / 9007199254740992,
       step_m = 3602879701896397 / 36028797018963968, outbounds_m = Zero\<rparr>,
      [1 / 4, 3152519739159347 / 9007199254740992]) \<and>
   operator_call_d
      \<lparr>table_m =
         [(1 / 4, 1 / 16),
          (3152519739159347 / 9007199254740992, 8827055269646171 / 72057594037927936)],
       min_m = 1 / 4, max_m = 3602879701896397 / 9007199254740992,
       step_m = 3602879701896397 / 36028797018963968, outbounds_m = Zero\<rparr>
      (3152519739159347 / 9007199254740992)
     = Inr (4413527634823085 / 36028797018963968) \<and>
   square_d (3152519739159347 / 9007199254740992) = 8827055269646171 / 72057594037927936 \<and>
   (4413527634823085 / 36028797018963968 :: real) < 8827055269646171 / 72057594037927936"
proof -
  have h: "(1/4::real) < rnd (2/5)" "0 < rnd (1/10)"
    unfolding literals by simp_all
  have a: "create_d (1/4) (rnd (2/5)) (rnd (1/10)) square_d (LookUpTable_default 0 0 0) =
     Inr (True,
      \<lparr>table_m =
         [(1 / 4, 1 / 16),
          (3152519739159347 / 9007199254740992, 8827055269646171 / 72057594037927936)],
       min_m = 1 / 4, max_m = 3602879701896397 / 9007199254740992,
       step_m = 3602879701896397 / 36028797018963968, outbounds_m = Zero\<rparr>,
      [1 / 4, 3152519739159347 / 9007199254740992])"
    unfolding literals by (simp add: create_d_eval dbl_eval square_d_def)
  have b: "operator_call_d
      \<lparr>table_m =
         [(1 / 4, 1 / 16),
          (3152519739159347 / 9007199254740992, 8827055269646171 / 72057594037927936)],
       min_m = 1 / 4, max_m = 3602879701896397 / 9007199254740992,
       step_m = 3602879701896397 / 36028797018963968, outbounds_m = Zero\<rparr>
      (3152519739159347 / 9007199254740992)
     = Inr (4413527634823085 / 36028797018963968)"
    by (simp add: operator_call_d_eval dbl_eval)
  have c: "square_d (3152519739159347 / 9007199254740992) = 8827055269646171 / 72057594037927936"
    by (simp add: square_d_def dbl_eval)
  have d: "(4413527634823085 / 36028797018963968 :: real) < 8827055269646171 / 72057594037927936"
    by simp
  show ?thesis
    using h a b c d by simp
qed

subsection \<open>Monotonicity\<close>

text \<open>
  Claim C6 holds of the interpolation as it is designed, and the program breaks it.
  \<^verbatim>\<open>create(0.3, 1.8, 0.7, f)\<close> with the step function, which is monotonic non-decreasing,
  stores the samples \<open>(0.3, 0)\<close>, \<open>(1, 0)\<close> and \<open>(1.7, 1)\<close>.  The query at \<open>0.5\<close> returns \<open>0\<close>.  The
  query at \<open>0.9999999999999999\<close>, the double below \<open>1\<close>, computes the rounded quotient
  \<open>(x - min) / step = 1\<close>, takes the cell from \<open>1\<close> to \<open>1.7\<close> although \<open>x\<close> lies below it, and
  returns \<open>-1.586 \<cdot> 10\<^sup>-\<^sup>1\<^sup>6\<close>, less than the value at the smaller argument.
\<close>

theorem lookup_monotonicity_binary64:
  "rnd (3/10) < rnd (9/5) \<and> 0 < rnd (7/10) \<and>
   create_d (rnd (3/10)) (rnd (9/5)) (rnd (7/10)) step_d (LookUpTable_default 0 0 0) =
     Inr (True,
      \<lparr>table_m =
         [(5404319552844595 / 18014398509481984, 0), (1, 0),
          (7656119366529843 / 4503599627370496, 1)],
       min_m = 5404319552844595 / 18014398509481984,
       max_m = 8106479329266893 / 4503599627370496,
       step_m = 3152519739159347 / 4503599627370496, outbounds_m = Zero\<rparr>,
      [5404319552844595 / 18014398509481984, 1, 7656119366529843 / 4503599627370496]) \<and>
   rnd (3/10) \<le> 1/2 \<and>
   (1/2 :: real) \<le> 9007199254740991 / 9007199254740992 \<and>
   9007199254740991 / 9007199254740992 \<le> rnd (9/5) \<and>
   operator_call_d
      \<lparr>table_m =
         [(5404319552844595 / 18014398509481984, 0), (1, 0),
          (7656119366529843 / 4503599627370496, 1)],
       min_m = 5404319552844595 / 18014398509481984,
       max_m = 8106479329266893 / 4503599627370496,
       step_m = 3152519739159347 / 4503599627370496, outbounds_m = Zero\<rparr>
      (1/2) = Inr 0 \<and>
   operator_call_d
      \<lparr>table_m =
         [(5404319552844595 / 18014398509481984, 0), (1, 0),
          (7656119366529843 / 4503599627370496, 1)],
       min_m = 5404319552844595 / 18014398509481984,
       max_m = 8106479329266893 / 4503599627370496,
       step_m = 3152519739159347 / 4503599627370496, outbounds_m = Zero\<rparr>
      (9007199254740991 / 9007199254740992)
     = Inr (- (6433713753386423 / 40564819207303340847894502572032)) \<and>
   - (6433713753386423 / 40564819207303340847894502572032) < (0::real)"
proof -
  have h: "rnd (3/10) < rnd (9/5)" "0 < rnd (7/10)" "rnd (3/10) \<le> 1/2"
    "9007199254740991 / 9007199254740992 \<le> rnd (9/5)"
    unfolding literals by simp_all
  have a: "create_d (rnd (3/10)) (rnd (9/5)) (rnd (7/10)) step_d (LookUpTable_default 0 0 0) =
     Inr (True,
      \<lparr>table_m =
         [(5404319552844595 / 18014398509481984, 0), (1, 0),
          (7656119366529843 / 4503599627370496, 1)],
       min_m = 5404319552844595 / 18014398509481984,
       max_m = 8106479329266893 / 4503599627370496,
       step_m = 3152519739159347 / 4503599627370496, outbounds_m = Zero\<rparr>,
      [5404319552844595 / 18014398509481984, 1, 7656119366529843 / 4503599627370496])"
    unfolding literals by (simp add: create_d_eval dbl_eval step_d_def)
  have b: "operator_call_d
      \<lparr>table_m =
         [(5404319552844595 / 18014398509481984, 0), (1, 0),
          (7656119366529843 / 4503599627370496, 1)],
       min_m = 5404319552844595 / 18014398509481984,
       max_m = 8106479329266893 / 4503599627370496,
       step_m = 3152519739159347 / 4503599627370496, outbounds_m = Zero\<rparr>
      (1/2) = Inr 0"
    by (simp add: operator_call_d_eval dbl_eval)
  have c: "operator_call_d
      \<lparr>table_m =
         [(5404319552844595 / 18014398509481984, 0), (1, 0),
          (7656119366529843 / 4503599627370496, 1)],
       min_m = 5404319552844595 / 18014398509481984,
       max_m = 8106479329266893 / 4503599627370496,
       step_m = 3152519739159347 / 4503599627370496, outbounds_m = Zero\<rparr>
      (9007199254740991 / 9007199254740992)
     = Inr (- (6433713753386423 / 40564819207303340847894502572032))"
    by (simp add: operator_call_d_eval dbl_eval)
  show ?thesis
    using h a b c by simp
qed

section \<open>Properties of the friction model\<close>

subsection \<open>One step, evaluated\<close>

lemma setFrictionForces_Tf_eval:
  "setFrictionForces_Tf (s\<lparr>firstTime := v, w_ast := a, T_ast := b\<rparr>) =
     (if b > Ts s then
        (case dryFricTable_call (dryFricTable s) a of
           Inl err \<Rightarrow> Inl err
         | Inr r \<Rightarrow> Inr (r + (Tc s + Tv s * a) / den s))
      else if b < - Ts s then
        (case dryFricTable_call (dryFricTable s) (- a) of
           Inl err \<Rightarrow> Inl err
         | Inr r \<Rightarrow> Inr (- r + (- Tc s + Tv s * a) / den s))
      else Inr b)"
  by (simp add: setFrictionForces_Tf_def cong: sum.case_cong)

lemma setFrictionForces_unfold:
  "setFrictionForces s =
     (let w = (if firstTime s \<noteq> 0 then 0 else (value_j s - p_prev s) / dt s);
          wa = w + Z s * Kf s * e s;
          s3 = s\<lparr>firstTime := 0, w_ast := wa, T_ast := wa / Z s\<rparr>
      in case setFrictionForces_Tf s3 of
           Inl err \<Rightarrow> (Inl err, s3)
         | Inr Tf \<Rightarrow>
             (Inr (torqueForce s - Tf),
              s3\<lparr>e := Z s * (Bf s * e s + Tf * dt s), p_prev := value_j s,
                 torqueForce := torqueForce s - Tf\<rparr>))"
proof (cases "firstTime s = 0")
  case True
  have eq: "s\<lparr>firstTime := 0\<rparr> = s" using True by (cases s) simp
  show ?thesis
    using True by (simp add: setFrictionForces_def Let_def eq cong: sum.case_cong)
next
  case False
  then show ?thesis
    by (simp add: setFrictionForces_def Let_def cong: sum.case_cong)
qed

lemma setFrictionForces_fields:
  "w_ast (snd (setFrictionForces s)) =
     (if firstTime s \<noteq> 0 then 0 else (value_j s - p_prev s) / dt s) + Z s * Kf s * e s"
  "T_ast (snd (setFrictionForces s)) = w_ast (snd (setFrictionForces s)) / Z s"
  "firstTime (snd (setFrictionForces s)) = 0"
  "dryFricTable (snd (setFrictionForces s)) = dryFricTable s"
proof -
  let ?wa = "(if firstTime s \<noteq> 0 then 0 else (value_j s - p_prev s) / dt s) + Z s * Kf s * e s"
  let ?s3 = "s\<lparr>firstTime := 0, w_ast := ?wa, T_ast := ?wa / Z s\<rparr>"
  have a: "w_ast (snd (setFrictionForces s)) = ?wa"
    unfolding setFrictionForces_unfold Let_def
    by (cases "setFrictionForces_Tf ?s3") simp_all
  show "w_ast (snd (setFrictionForces s)) = ?wa" by (rule a)
  show "T_ast (snd (setFrictionForces s)) = w_ast (snd (setFrictionForces s)) / Z s"
    unfolding a unfolding setFrictionForces_unfold Let_def
    by (cases "setFrictionForces_Tf ?s3") simp_all
  show "firstTime (snd (setFrictionForces s)) = 0"
    unfolding setFrictionForces_unfold Let_def
    by (cases "setFrictionForces_Tf ?s3") simp_all
  show "dryFricTable (snd (setFrictionForces s)) = dryFricTable s"
    unfolding setFrictionForces_unfold Let_def
    by (cases "setFrictionForces_Tf ?s3") simp_all
qed

lemma setFrictionForces_Tf_pre:
  "setFrictionForces_Tf
     (s\<lparr>w_ast := w_ast (snd (setFrictionForces s)), T_ast := T_ast (snd (setFrictionForces s))\<rparr>) =
   setFrictionForces_Tf
     (s\<lparr>firstTime := 0, w_ast := w_ast (snd (setFrictionForces s)),
        T_ast := T_ast (snd (setFrictionForces s))\<rparr>)"
proof -
  have "s\<lparr>w_ast := a, T_ast := b\<rparr> = s\<lparr>firstTime := firstTime s, w_ast := a, T_ast := b\<rparr>" for a b
    by simp
  then show ?thesis by (simp only: setFrictionForces_Tf_eval)
qed

lemma setFrictionForces_Inr:
  assumes "setFrictionForces_Tf
     (s\<lparr>w_ast := w_ast (snd (setFrictionForces s)), T_ast := T_ast (snd (setFrictionForces s))\<rparr>) = Inr Tf"
  shows "fst (setFrictionForces s) = Inr (torqueForce s - Tf)"
    "e (snd (setFrictionForces s)) = Z s * (Bf s * e s + Tf * dt s)"
    "p_prev (snd (setFrictionForces s)) = value_j s"
    "torqueForce (snd (setFrictionForces s)) = torqueForce s - Tf"
proof -
  let ?wa = "(if firstTime s \<noteq> 0 then 0 else (value_j s - p_prev s) / dt s) + Z s * Kf s * e s"
  let ?s3 = "s\<lparr>firstTime := 0, w_ast := ?wa, T_ast := ?wa / Z s\<rparr>"
  have tf: "setFrictionForces_Tf ?s3 = Inr Tf"
    using assms unfolding setFrictionForces_Tf_pre
    unfolding setFrictionForces_fields(2) unfolding setFrictionForces_fields(1) .
  show "fst (setFrictionForces s) = Inr (torqueForce s - Tf)"
    "e (snd (setFrictionForces s)) = Z s * (Bf s * e s + Tf * dt s)"
    "p_prev (snd (setFrictionForces s)) = value_j s"
    "torqueForce (snd (setFrictionForces s)) = torqueForce s - Tf"
    unfolding setFrictionForces_unfold Let_def tf by simp_all
qed

lemma setFrictionForces_Inl:
  assumes "setFrictionForces_Tf
     (s\<lparr>w_ast := w_ast (snd (setFrictionForces s)), T_ast := T_ast (snd (setFrictionForces s))\<rparr>) = Inl err"
  shows "fst (setFrictionForces s) = Inl err"
    "e (snd (setFrictionForces s)) = e s"
    "p_prev (snd (setFrictionForces s)) = p_prev s"
    "torqueForce (snd (setFrictionForces s)) = torqueForce s"
proof -
  let ?wa = "(if firstTime s \<noteq> 0 then 0 else (value_j s - p_prev s) / dt s) + Z s * Kf s * e s"
  let ?s3 = "s\<lparr>firstTime := 0, w_ast := ?wa, T_ast := ?wa / Z s\<rparr>"
  have tf: "setFrictionForces_Tf ?s3 = Inl err"
    using assms unfolding setFrictionForces_Tf_pre
    unfolding setFrictionForces_fields(2) unfolding setFrictionForces_fields(1) .
  show "fst (setFrictionForces s) = Inl err"
    "e (snd (setFrictionForces s)) = e s"
    "p_prev (snd (setFrictionForces s)) = p_prev s"
    "torqueForce (snd (setFrictionForces s)) = torqueForce s"
    unfolding setFrictionForces_unfold Let_def tf by simp_all
qed

lemma setFrictionForces_Tf_eval2:
  "setFrictionForces_Tf (s\<lparr>w_ast := a, T_ast := b\<rparr>) =
     (if b > Ts s then
        (case dryFricTable_call (dryFricTable s) a of
           Inl err \<Rightarrow> Inl err
         | Inr r \<Rightarrow> Inr (r + (Tc s + Tv s * a) / den s))
      else if b < - Ts s then
        (case dryFricTable_call (dryFricTable s) (- a) of
           Inl err \<Rightarrow> Inl err
         | Inr r \<Rightarrow> Inr (- r + (- Tc s + Tv s * a) / den s))
      else Inr b)"
  by (simp add: setFrictionForces_Tf_def cong: sum.case_cong)

lemma setFrictionForces_stick:
  assumes "- Ts s \<le> ((if firstTime s \<noteq> 0 then 0 else (value_j s - p_prev s) / dt s) + Z s * Kf s * e s) / Z s"
    and "((if firstTime s \<noteq> 0 then 0 else (value_j s - p_prev s) / dt s) + Z s * Kf s * e s) / Z s \<le> Ts s"
  shows "setFrictionForces (s\<lparr>dryFricTable := d\<rparr>) =
     (let wa = (if firstTime s \<noteq> 0 then 0 else (value_j s - p_prev s) / dt s) + Z s * Kf s * e s;
          T = wa / Z s
      in (Inr (torqueForce s - T),
          s\<lparr>firstTime := 0, w_ast := wa, T_ast := T,
             e := Z s * (Bf s * e s + T * dt s), p_prev := value_j s,
             torqueForce := torqueForce s - T, dryFricTable := d\<rparr>))"
proof -
  let ?wa = "(if firstTime s \<noteq> 0 then 0 else (value_j s - p_prev s) / dt s) + Z s * Kf s * e s"
  let ?sd = "s\<lparr>dryFricTable := d\<rparr>"
  have tf: "setFrictionForces_Tf (?sd\<lparr>firstTime := 0, w_ast := ?wa, T_ast := ?wa / Z s\<rparr>) = Inr (?wa / Z s)"
    unfolding setFrictionForces_Tf_eval using assms by simp
  have "setFrictionForces ?sd =
      (Inr (torqueForce s - ?wa / Z s),
       ?sd\<lparr>firstTime := 0, w_ast := ?wa, T_ast := ?wa / Z s,
           e := Z s * (Bf s * e s + ?wa / Z s * dt s), p_prev := value_j s,
           torqueForce := torqueForce s - ?wa / Z s\<rparr>)"
  proof -
    have sel: "firstTime ?sd = firstTime s" "value_j ?sd = value_j s" "p_prev ?sd = p_prev s"
      "dt ?sd = dt s" "Z ?sd = Z s" "Kf ?sd = Kf s" "e ?sd = e s" "Bf ?sd = Bf s"
      "torqueForce ?sd = torqueForce s"
      by simp_all
    show ?thesis
      unfolding setFrictionForces_unfold[of ?sd] Let_def sel tf by simp
  qed
  then show ?thesis by (simp add: Let_def)
qed

lemma JointValSet_init_fields:
  "Ts (JointValSet_init a1 a2 a3 a4 a5 a6 a7 a8) = 5/2"
  "Tc (JointValSet_init a1 a2 a3 a4 a5 a6 a7 a8) = 1/5"
  "Tsc (JointValSet_init a1 a2 a3 a4 a5 a6 a7 a8) = 23/10"
  "Tv (JointValSet_init a1 a2 a3 a4 a5 a6 a7 a8) = 9/2"
  "wbrk (JointValSet_init a1 a2 a3 a4 a5 a6 a7 a8) = 1/25"
  "Kf (JointValSet_init a1 a2 a3 a4 a5 a6 a7 a8) = 5000"
  "Bf (JointValSet_init a1 a2 a3 a4 a5 a6 a7 a8) = 50"
  "lambArg_th (JointValSet_init a1 a2 a3 a4 a5 a6 a7 a8) = - (1/1000)"
  "dt (JointValSet_init a1 a2 a3 a4 a5 a6 a7 a8) = 1/1000"
  "Z (JointValSet_init a1 a2 a3 a4 a5 a6 a7 a8) = 1/55"
  "den (JointValSet_init a1 a2 a3 a4 a5 a6 a7 a8) = 119/110"
  "min_j (JointValSet_init a1 a2 a3 a4 a5 a6 a7 a8) = 1/22"
  "max_j (JointValSet_init a1 a2 a3 a4 a5 a6 a7 a8) = 1/275 - 119/2750 * ln (119/115000)"
  "LUTstep (JointValSet_init a1 a2 a3 a4 a5 a6 a7 a8) = 1/1000"
  "value_j (JointValSet_init a1 a2 a3 a4 a5 a6 a7 a8) = a1"
  "torqueForce (JointValSet_init a1 a2 a3 a4 a5 a6 a7 a8) = a3"
  "e (JointValSet_init a1 a2 a3 a4 a5 a6 a7 a8) = a4"
  "p_prev (JointValSet_init a1 a2 a3 a4 a5 a6 a7 a8) = a5"
  "firstTime (JointValSet_init a1 a2 a3 a4 a5 a6 a7 a8) = a8"
  "dryFricTable (JointValSet_init a1 a2 a3 a4 a5 a6 a7 a8) = None"
  by (simp_all add: JointValSet_init_def Let_def)

lemma ln_default_bound: "ln (119/115000 :: real) \<le> - 1"
proof -
  have e3: "exp (1::real) \<le> 3" by (rule exp_le)
  have a: "(1::real) / 3 \<le> 1 / exp 1"
    using e3 by (intro divide_left_mono) simp_all
  have b: "exp (- 1 :: real) = 1 / exp 1"
    by (simp add: exp_minus inverse_eq_divide)
  have c: "(119/115000 :: real) \<le> 1 / 3" by simp
  have "(119/115000 :: real) \<le> exp (- 1)"
    unfolding b using a c by linarith
  then have "ln (119/115000 :: real) \<le> ln (exp (- 1))"
    by (intro ln_mono) simp_all
  then show ?thesis by simp
qed

lemma default_domain: "min_j (JointValSet_init a1 a2 a3 a4 a5 a6 a7 a8) < max_j (JointValSet_init a1 a2 a3 a4 a5 a6 a7 a8)"
  unfolding JointValSet_init_fields using ln_default_bound by simp

lemma LookUpTable_ctor_run:
  assumes "mn \<le> mx" "0 < st"
  shows "LookUpTable_ctor mn mx st f None u1 u2 u3 =
     Inr \<lparr>table_m = map (\<lambda>i. (mn + real i * st, f (mn + real i * st)))
                       [0..<nat (\<lfloor>(mx - mn) / st\<rfloor> + 1)],
          min_m = mn, max_m = mx, step_m = st, outbounds_m = Zero\<rparr>"
proof -
  let ?t = "\<lparr>table_m = [], min_m = u1, max_m = u2, step_m = u3, outbounds_m = Zero\<rparr>"
  have h: "mn \<le> mx \<and> st \<noteq> 0 \<and> 0 \<le> \<lfloor>(mx - mn) / st\<rfloor>"
    using assms by simp
  have g: "\<not> (mn > mx \<or> st = 0)" using assms by simp
  have nn: "\<not> table_size mn mx st < 0"
    using table_size_pos[OF assms] by linarith
  have sx: "sample_x mn st = (\<lambda>i. mn + real i * st)"
    by (rule ext) (simp add: sample_x_def)
  have c: "create mn mx st f ?t =
        Inr (True,
             ?t\<lparr>min_m := mn, max_m := mx, step_m := st,
               table_m := sample_table mn st f (nat (table_size mn mx st))\<rparr>,
             map (sample_x mn st) [0..<nat (table_size mn mx st)])"
    using create_run[OF g, of f ?t] nn by simp
  show ?thesis
    unfolding LookUpTable_ctor_def Let_def option.case c
    by (simp add: sample_table_def sx table_size_def)
qed

lemma example_table_query:
  "operator_call \<lparr>table_m = [(0, 1), (1/2, 3/2), (1, 2)], min_m = 0, max_m = 1, step_m = 1/2,
                   outbounds_m = Zero\<rparr> (1/11) = Inr (12/11)"
  "operator_call \<lparr>table_m = [(0, 1), (1/2, 3/2), (1, 2)], min_m = 0, max_m = 1, step_m = 1/2,
                   outbounds_m = Zero\<rparr> 0 = Inr 1"
  by (simp_all add: operator_call_def to_size_t_floor)

subsection \<open>The three regimes\<close>

text \<open>
  Claim C7, as amended.  In every call of \<open>setFrictionForces\<close> the struct receives
  \<open>w_ast = w + Z \<cdot> Kf \<cdot> e\<close> and \<open>T_ast = w_ast / Z\<close>, and the friction torque \<open>Tf\<close>, which the
  call subtracts from \<open>torqueForce\<close>, is chosen by testing in this order: if
  \<open>T_ast > Ts\<close> then \<open>Tf = table(w_ast) + (Tc + Tv \<cdot> w_ast) / den\<close>; otherwise, if
  \<open>T_ast < - Ts\<close>, then \<open>Tf = - table(- w_ast) + (- Tc + Tv \<cdot> w_ast) / den\<close>, the table being
  queried at \<open>- w_ast\<close>; otherwise, that is when \<open>- Ts \<le> T_ast \<le> Ts\<close>, \<open>Tf = T_ast\<close>.  An
  error of the table query is the result of the call.  The first two conditions exclude
  each other whenever \<open>Ts \<ge> 0\<close>.

  The claim as stated lets the second formula hold whenever \<open>T_ast < - Ts\<close>.  For a
  negative \<open>Ts\<close> both comparisons can hold, and the first one wins, as in the
  counterexample after the theorem.
\<close>

theorem friction_regime_selection:
  "let r = setFrictionForces s; s' = snd r in
     w_ast s' = (if firstTime s \<noteq> 0 then 0 else (value_j s - p_prev s) / dt s)
                + Z s * Kf s * e s \<and>
     T_ast s' = w_ast s' / Z s \<and>
     (T_ast s' > Ts s \<longrightarrow>
        (case dryFricTable_call (dryFricTable s) (w_ast s') of
           Inl err \<Rightarrow> fst r = Inl err
         | Inr v \<Rightarrow> fst r = Inr (torqueForce s - (v + (Tc s + Tv s * w_ast s') / den s)))) \<and>
     (\<not> T_ast s' > Ts s \<and> T_ast s' < - Ts s \<longrightarrow>
        (case dryFricTable_call (dryFricTable s) (- w_ast s') of
           Inl err \<Rightarrow> fst r = Inl err
         | Inr v \<Rightarrow> fst r = Inr (torqueForce s - (- v + (- Tc s + Tv s * w_ast s') / den s)))) \<and>
     (- Ts s \<le> T_ast s' \<and> T_ast s' \<le> Ts s \<longrightarrow> fst r = Inr (torqueForce s - T_ast s')) \<and>
     (0 \<le> Ts s \<longrightarrow> \<not> (T_ast s' > Ts s \<and> T_ast s' < - Ts s))"
proof -
  let ?r = "setFrictionForces s"
  let ?a = "w_ast (snd ?r)"
  let ?b = "T_ast (snd ?r)"
  let ?pre = "s\<lparr>w_ast := ?a, T_ast := ?b\<rparr>"
  note ev = setFrictionForces_Tf_eval2[where s = s and a = ?a and b = ?b]
  have pos: "case dryFricTable_call (dryFricTable s) ?a of
           Inl err \<Rightarrow> fst ?r = Inl err
         | Inr v \<Rightarrow> fst ?r = Inr (torqueForce s - (v + (Tc s + Tv s * ?a) / den s))"
    if h: "?b > Ts s"
  proof (cases "dryFricTable_call (dryFricTable s) ?a")
    case (Inl err)
    have "setFrictionForces_Tf ?pre = Inl err" unfolding ev using h Inl by simp
    from setFrictionForces_Inl(1)[OF this] show ?thesis using Inl by simp
  next
    case (Inr v)
    have "setFrictionForces_Tf ?pre = Inr (v + (Tc s + Tv s * ?a) / den s)"
      unfolding ev using h Inr by simp
    from setFrictionForces_Inr(1)[OF this] show ?thesis using Inr by simp
  qed
  have neg: "case dryFricTable_call (dryFricTable s) (- ?a) of
           Inl err \<Rightarrow> fst ?r = Inl err
         | Inr v \<Rightarrow> fst ?r = Inr (torqueForce s - (- v + (- Tc s + Tv s * ?a) / den s))"
    if h: "\<not> ?b > Ts s \<and> ?b < - Ts s"
  proof (cases "dryFricTable_call (dryFricTable s) (- ?a)")
    case (Inl err)
    have "setFrictionForces_Tf ?pre = Inl err" unfolding ev using h Inl by simp
    from setFrictionForces_Inl(1)[OF this] show ?thesis using Inl by simp
  next
    case (Inr v)
    have "setFrictionForces_Tf ?pre = Inr (- v + (- Tc s + Tv s * ?a) / den s)"
      unfolding ev using h Inr by simp
    from setFrictionForces_Inr(1)[OF this] show ?thesis using Inr by simp
  qed
  have stick: "fst ?r = Inr (torqueForce s - ?b)" if h: "- Ts s \<le> ?b \<and> ?b \<le> Ts s"
  proof -
    have "setFrictionForces_Tf ?pre = Inr ?b" unfolding ev using h by simp
    from setFrictionForces_Inr(1)[OF this] show ?thesis .
  qed
  have excl: "0 \<le> Ts s \<longrightarrow> \<not> (?b > Ts s \<and> ?b < - Ts s)" by linarith
  show ?thesis
    unfolding Let_def
    using setFrictionForces_fields(1,2)[of s] pos neg stick excl by blast
qed

theorem friction_regime_selection_witness:
  "T_ast (snd (setFrictionForces ((JointValSet_init 0 0 0 (1/1000) 0 0 0 1)
      \<lparr>dryFricTable := Some \<lparr>table_m = [(0, 1), (1/2, 3/2), (1, 2)], min_m = 0, max_m = 1,
                               step_m = 1/2, outbounds_m = Zero\<rparr>\<rparr>))) = 5 \<and>
   fst (setFrictionForces ((JointValSet_init 0 0 0 (1/1000) 0 0 0 1)
      \<lparr>dryFricTable := Some \<lparr>table_m = [(0, 1), (1/2, 3/2), (1, 2)], min_m = 0, max_m = 1,
                               step_m = 1/2, outbounds_m = Zero\<rparr>\<rparr>))
     = Inr (0 - (12/11 + (1/5 + 9/2 * (1/11)) / (119/110))) \<and>
   T_ast (snd (setFrictionForces ((JointValSet_init 0 0 0 (- (1/1000)) 0 0 0 1)
      \<lparr>dryFricTable := Some \<lparr>table_m = [(0, 1), (1/2, 3/2), (1, 2)], min_m = 0, max_m = 1,
                               step_m = 1/2, outbounds_m = Zero\<rparr>\<rparr>))) = - 5 \<and>
   fst (setFrictionForces ((JointValSet_init 0 0 0 (- (1/1000)) 0 0 0 1)
      \<lparr>dryFricTable := Some \<lparr>table_m = [(0, 1), (1/2, 3/2), (1, 2)], min_m = 0, max_m = 1,
                               step_m = 1/2, outbounds_m = Zero\<rparr>\<rparr>))
     = Inr (0 - (- (12/11) + (- (1/5) + 9/2 * (- (1/11))) / (119/110))) \<and>
   T_ast (snd (setFrictionForces (JointValSet_init 0 0 3 (1/5000) 0 0 0 1))) = 1 \<and>
   fst (setFrictionForces (JointValSet_init 0 0 3 (1/5000) 0 0 0 1)) = Inr (3 - 1)"
proof -
  let ?T = "\<lparr>table_m = [(0, 1), (1/2, 3/2), (1, 2)], min_m = 0, max_m = 1,
                               step_m = 1/2, outbounds_m = Zero\<rparr>"
  let ?P = "(JointValSet_init 0 0 0 (1/1000) 0 0 0 1)\<lparr>dryFricTable := Some ?T\<rparr>"
  let ?N = "(JointValSet_init 0 0 0 (- (1/1000)) 0 0 0 1)\<lparr>dryFricTable := Some ?T\<rparr>"
  let ?K = "JointValSet_init 0 0 3 (1/5000) 0 0 0 1"
  have wP: "w_ast (snd (setFrictionForces ?P)) = 1/11"
    unfolding setFrictionForces_fields(1) by (simp add: JointValSet_init_fields)
  have tP: "T_ast (snd (setFrictionForces ?P)) = 5"
    unfolding setFrictionForces_fields(2) wP by (simp add: JointValSet_init_fields)
  have qP: "dryFricTable_call (dryFricTable ?P) (1/11) = Inr (12/11)"
    by (simp add: dryFricTable_call_def example_table_query)
  have rP: "fst (setFrictionForces ?P) = Inr (0 - (12/11 + (1/5 + 9/2 * (1/11)) / (119/110)))"
    using friction_regime_selection[of ?P]
    unfolding Let_def tP wP qP
    by (simp add: JointValSet_init_fields)
  have wN: "w_ast (snd (setFrictionForces ?N)) = - (1/11)"
    unfolding setFrictionForces_fields(1) by (simp add: JointValSet_init_fields)
  have tN: "T_ast (snd (setFrictionForces ?N)) = - 5"
    unfolding setFrictionForces_fields(2) wN by (simp add: JointValSet_init_fields)
  have qN: "dryFricTable_call (dryFricTable ?N) (- (- (1/11))) = Inr (12/11)"
    by (simp add: dryFricTable_call_def example_table_query)
  have rN: "fst (setFrictionForces ?N) = Inr (0 - (- (12/11) + (- (1/5) + 9/2 * (- (1/11))) / (119/110)))"
    using friction_regime_selection[of ?N]
    unfolding Let_def tN wN qN
    by (simp add: JointValSet_init_fields)
  have wK: "w_ast (snd (setFrictionForces ?K)) = 1/55"
    unfolding setFrictionForces_fields(1) by (simp add: JointValSet_init_fields)
  have tK: "T_ast (snd (setFrictionForces ?K)) = 1"
    unfolding setFrictionForces_fields(2) wK by (simp add: JointValSet_init_fields)
  have rK: "fst (setFrictionForces ?K) = Inr (3 - 1)"
    using friction_regime_selection[of ?K]
    unfolding Let_def tK wK
    by (simp add: JointValSet_init_fields)
  show ?thesis using tP rP tN rN tK rK by blast
qed

theorem friction_regime_selection_counterexample:
  "T_ast (snd (setFrictionForces ((JointValSet_init 0 0 0 0 0 0 0 1)
      \<lparr>Ts := - 1,
        dryFricTable := Some \<lparr>table_m = [(0, 1), (1/2, 3/2), (1, 2)], min_m = 0, max_m = 1,
                               step_m = 1/2, outbounds_m = Zero\<rparr>\<rparr>)))
     < - Ts ((JointValSet_init 0 0 0 0 0 0 0 1)
      \<lparr>Ts := - 1,
        dryFricTable := Some \<lparr>table_m = [(0, 1), (1/2, 3/2), (1, 2)], min_m = 0, max_m = 1,
                               step_m = 1/2, outbounds_m = Zero\<rparr>\<rparr>) \<and>
   w_ast (snd (setFrictionForces ((JointValSet_init 0 0 0 0 0 0 0 1)
      \<lparr>Ts := - 1,
        dryFricTable := Some \<lparr>table_m = [(0, 1), (1/2, 3/2), (1, 2)], min_m = 0, max_m = 1,
                               step_m = 1/2, outbounds_m = Zero\<rparr>\<rparr>))) = 0 \<and>
   dryFricTable_call
     (Some \<lparr>table_m = [(0, 1), (1/2, 3/2), (1, 2)], min_m = 0, max_m = 1,
            step_m = 1/2, outbounds_m = Zero\<rparr>) (- 0) = Inr 1 \<and>
   fst (setFrictionForces ((JointValSet_init 0 0 0 0 0 0 0 1)
      \<lparr>Ts := - 1,
        dryFricTable := Some \<lparr>table_m = [(0, 1), (1/2, 3/2), (1, 2)], min_m = 0, max_m = 1,
                               step_m = 1/2, outbounds_m = Zero\<rparr>\<rparr>))
     = Inr (0 - (1 + (1/5 + 9/2 * 0) / (119/110))) \<and>
   fst (setFrictionForces ((JointValSet_init 0 0 0 0 0 0 0 1)
      \<lparr>Ts := - 1,
        dryFricTable := Some \<lparr>table_m = [(0, 1), (1/2, 3/2), (1, 2)], min_m = 0, max_m = 1,
                               step_m = 1/2, outbounds_m = Zero\<rparr>\<rparr>))
     \<noteq> Inr (0 - (- 1 + (- (1/5) + 9/2 * 0) / (119/110)))"
proof -
  let ?T = "\<lparr>table_m = [(0, 1), (1/2, 3/2), (1, 2)], min_m = 0, max_m = 1,
                               step_m = 1/2, outbounds_m = Zero\<rparr>"
  let ?S = "(JointValSet_init 0 0 0 0 0 0 0 1)\<lparr>Ts := - 1, dryFricTable := Some ?T\<rparr>"
  have w: "w_ast (snd (setFrictionForces ?S)) = 0"
    unfolding setFrictionForces_fields(1) by (simp add: JointValSet_init_fields)
  have t: "T_ast (snd (setFrictionForces ?S)) = 0"
    unfolding setFrictionForces_fields(2) w by simp
  have q: "dryFricTable_call (Some ?T) (- 0) = Inr 1"
    by (simp add: dryFricTable_call_def example_table_query)
  have tf: "setFrictionForces_Tf
     (?S\<lparr>w_ast := w_ast (snd (setFrictionForces ?S)), T_ast := T_ast (snd (setFrictionForces ?S))\<rparr>)
      = Inr (1 + (1/5 + 9/2 * 0) / (119/110))"
    unfolding setFrictionForces_Tf_eval2 w t
    using q by (simp add: JointValSet_init_fields)
  have r: "fst (setFrictionForces ?S) = Inr (0 - (1 + (1/5 + 9/2 * 0) / (119/110)))"
    using setFrictionForces_Inr(1)[OF tf] by (simp add: JointValSet_init_fields)
  have lt: "T_ast (snd (setFrictionForces ?S)) < - Ts ?S"
    unfolding t by simp
  have ne: "fst (setFrictionForces ?S) \<noteq> Inr (0 - (- 1 + (- (1/5) + 9/2 * 0) / (119/110)))"
    unfolding r by simp
  show ?thesis using lt w q r ne by blast
qed

subsection \<open>The state after a step\<close>

text \<open>
  Claim C8.  A call of \<open>setFrictionForces\<close> uses the velocity \<open>w = 0\<close> when \<open>firstTime\<close> is
  set and \<open>w = (value - p_prev) / dt\<close> when it is not, and leaves \<open>firstTime\<close> cleared.  When
  a torque \<open>Tf\<close> has been chosen, the call sets \<open>e\<close> to \<open>Z \<cdot> (Bf \<cdot> e + Tf \<cdot> dt)\<close> with the old
  \<open>e\<close>, sets \<open>p_prev\<close> to \<open>value\<close>, subtracts \<open>Tf\<close> from \<open>torqueForce\<close> and returns the new
  \<open>torqueForce\<close>.  When the table query raises instead, \<open>e\<close>, \<open>p_prev\<close> and \<open>torqueForce\<close>
  are as before.  \<open>createTable\<close>, the other function on the struct, changes neither \<open>e\<close>
  nor \<open>p_prev\<close>, nor \<open>firstTime\<close>.
\<close>

theorem friction_state_update:
  "let r = setFrictionForces s; s' = snd r in
     (firstTime s \<noteq> 0 \<longrightarrow> w_ast s' = 0 + Z s * Kf s * e s) \<and>
     (firstTime s = 0 \<longrightarrow> w_ast s' = (value_j s - p_prev s) / dt s + Z s * Kf s * e s) \<and>
     firstTime s' = 0 \<and>
     (\<forall>Tf. setFrictionForces_Tf (s\<lparr>w_ast := w_ast s', T_ast := T_ast s'\<rparr>) = Inr Tf \<longrightarrow>
        e s' = Z s * (Bf s * e s + Tf * dt s) \<and>
        p_prev s' = value_j s \<and>
        torqueForce s' = torqueForce s - Tf \<and>
        fst r = Inr (torqueForce s')) \<and>
     (\<forall>err. setFrictionForces_Tf (s\<lparr>w_ast := w_ast s', T_ast := T_ast s'\<rparr>) = Inl err \<longrightarrow>
        fst r = Inl err \<and> e s' = e s \<and> p_prev s' = p_prev s \<and> torqueForce s' = torqueForce s) \<and>
     (\<forall>W0 u1 u2 u3 s''. createTable W0 u1 u2 u3 s = Inr s'' \<longrightarrow>
        e s'' = e s \<and> p_prev s'' = p_prev s \<and> firstTime s'' = firstTime s)"
proof -
  let ?r = "setFrictionForces s"
  have w1: "firstTime s \<noteq> 0 \<longrightarrow> w_ast (snd ?r) = 0 + Z s * Kf s * e s"
    using setFrictionForces_fields(1)[of s] by simp
  have w2: "firstTime s = 0 \<longrightarrow> w_ast (snd ?r) = (value_j s - p_prev s) / dt s + Z s * Kf s * e s"
    using setFrictionForces_fields(1)[of s] by simp
  have ok: "\<forall>Tf. setFrictionForces_Tf (s\<lparr>w_ast := w_ast (snd ?r), T_ast := T_ast (snd ?r)\<rparr>) = Inr Tf \<longrightarrow>
        e (snd ?r) = Z s * (Bf s * e s + Tf * dt s) \<and>
        p_prev (snd ?r) = value_j s \<and>
        torqueForce (snd ?r) = torqueForce s - Tf \<and>
        fst ?r = Inr (torqueForce (snd ?r))"
    using setFrictionForces_Inr[of s] by simp
  have er: "\<forall>err. setFrictionForces_Tf (s\<lparr>w_ast := w_ast (snd ?r), T_ast := T_ast (snd ?r)\<rparr>) = Inl err \<longrightarrow>
        fst ?r = Inl err \<and> e (snd ?r) = e s \<and> p_prev (snd ?r) = p_prev s \<and>
        torqueForce (snd ?r) = torqueForce s"
    using setFrictionForces_Inl[of s] by simp
  have ct: "\<forall>W0 u1 u2 u3 s''. createTable W0 u1 u2 u3 s = Inr s'' \<longrightarrow>
        e s'' = e s \<and> p_prev s'' = p_prev s \<and> firstTime s'' = firstTime s"
    by (auto simp: createTable_def Let_def split: sum.splits)
  show ?thesis
    unfolding Let_def
    using w1 w2 setFrictionForces_fields(3)[of s] ok er ct by blast
qed

theorem friction_state_update_witness:
  "firstTime (JointValSet_init 0 0 3 (1/5000) 0 0 0 1) \<noteq> 0 \<and>
   w_ast (snd (setFrictionForces (JointValSet_init 0 0 3 (1/5000) 0 0 0 1))) = 0 + 1/55 \<and>
   firstTime (snd (setFrictionForces (JointValSet_init 0 0 3 (1/5000) 0 0 0 1))) = 0 \<and>
   e (snd (setFrictionForces (JointValSet_init 0 0 3 (1/5000) 0 0 0 1)))
     = 1/55 * (50 * (1/5000) + 1 * (1/1000)) \<and>
   p_prev (snd (setFrictionForces (JointValSet_init 0 0 3 (1/5000) 0 0 0 1))) = 0 \<and>
   torqueForce (snd (setFrictionForces (JointValSet_init 0 0 3 (1/5000) 0 0 0 1))) = 3 - 1 \<and>
   fst (setFrictionForces (JointValSet_init 0 0 3 (1/5000) 0 0 0 1)) = Inr (3 - 1) \<and>
   firstTime (JointValSet_init (1/1000) 0 3 0 0 0 0 0) = 0 \<and>
   w_ast (snd (setFrictionForces (JointValSet_init (1/1000) 0 3 0 0 0 0 0))) = 1 \<and>
   fst (setFrictionForces (JointValSet_init (1/1000) 0 3 0 0 0 0 0)) = Inl NullDereference \<and>
   e (snd (setFrictionForces (JointValSet_init (1/1000) 0 3 0 0 0 0 0))) = 0 \<and>
   p_prev (snd (setFrictionForces (JointValSet_init (1/1000) 0 3 0 0 0 0 0))) = 0 \<and>
   torqueForce (snd (setFrictionForces (JointValSet_init (1/1000) 0 3 0 0 0 0 0))) = 3 \<and>
   (\<exists>s''. createTable id 0 0 0 ((JointValSet_init 0 0 3 (1/5000) 0 0 0 1)\<lparr>min_j := 1, max_j := 0\<rparr>)
            = Inr s'' \<and> e s'' = 1/5000 \<and> p_prev s'' = 0)"
proof -
  let ?K = "JointValSet_init 0 0 3 (1/5000) 0 0 0 1"
  let ?L = "JointValSet_init (1/1000) 0 3 0 0 0 0 0"
  let ?M = "?K\<lparr>min_j := 1, max_j := 0\<rparr>"
  note thK = friction_state_update[of ?K, unfolded Let_def]
  note thL = friction_state_update[of ?L, unfolded Let_def]
  note thM = friction_state_update[of ?M, unfolded Let_def]
  have fK: "firstTime ?K \<noteq> 0" by (simp add: JointValSet_init_fields)
  have wK: "w_ast (snd (setFrictionForces ?K)) = 0 + 1/55"
    using thK fK by (simp add: JointValSet_init_fields)
  have tK: "T_ast (snd (setFrictionForces ?K)) = 1"
    unfolding setFrictionForces_fields(2) wK by (simp add: JointValSet_init_fields)
  have f0: "firstTime (snd (setFrictionForces ?K)) = 0"
    using thK by blast
  have tfK: "setFrictionForces_Tf
      (?K\<lparr>w_ast := w_ast (snd (setFrictionForces ?K)), T_ast := T_ast (snd (setFrictionForces ?K))\<rparr>)
      = Inr 1"
    unfolding setFrictionForces_Tf_eval2 tK by (simp add: JointValSet_init_fields)
  have upK: "e (snd (setFrictionForces ?K)) = Z ?K * (Bf ?K * e ?K + 1 * dt ?K) \<and>
        p_prev (snd (setFrictionForces ?K)) = value_j ?K \<and>
        torqueForce (snd (setFrictionForces ?K)) = torqueForce ?K - 1 \<and>
        fst (setFrictionForces ?K) = Inr (torqueForce (snd (setFrictionForces ?K)))"
    using thK tfK by blast
  have eK: "e (snd (setFrictionForces ?K)) = 1/55 * (50 * (1/5000) + 1 * (1/1000))"
    and pK: "p_prev (snd (setFrictionForces ?K)) = 0"
    and qK: "torqueForce (snd (setFrictionForces ?K)) = 3 - 1"
    and rK: "fst (setFrictionForces ?K) = Inr (3 - 1)"
    using upK by (simp_all add: JointValSet_init_fields)
  have fL: "firstTime ?L = 0" by (simp add: JointValSet_init_fields)
  have wL: "w_ast (snd (setFrictionForces ?L)) = 1"
    using thL fL by (simp add: JointValSet_init_fields)
  have tL: "T_ast (snd (setFrictionForces ?L)) = 55"
    unfolding setFrictionForces_fields(2) wL by (simp add: JointValSet_init_fields)
  have tfL: "setFrictionForces_Tf
      (?L\<lparr>w_ast := w_ast (snd (setFrictionForces ?L)), T_ast := T_ast (snd (setFrictionForces ?L))\<rparr>)
      = Inl NullDereference"
    unfolding setFrictionForces_Tf_eval2 tL
    by (simp add: JointValSet_init_fields dryFricTable_call_def)
  have upL: "fst (setFrictionForces ?L) = Inl NullDereference \<and>
        e (snd (setFrictionForces ?L)) = e ?L \<and> p_prev (snd (setFrictionForces ?L)) = p_prev ?L \<and>
        torqueForce (snd (setFrictionForces ?L)) = torqueForce ?L"
    using thL tfL by blast
  have rL: "fst (setFrictionForces ?L) = Inl NullDereference"
    and eL: "e (snd (setFrictionForces ?L)) = 0"
    and pL: "p_prev (snd (setFrictionForces ?L)) = 0"
    and qL: "torqueForce (snd (setFrictionForces ?L)) = 3"
    using upL by (simp_all add: JointValSet_init_fields)
  have cM: "createTable id 0 0 0 ?M =
      Inr (?M\<lparr>dryFricTable := Some \<lparr>table_m = [], min_m = 0, max_m = 0, step_m = 0,
                                      outbounds_m = Zero\<rparr>\<rparr>)"
    by (simp add: createTable_def LookUpTable_ctor_def create_fail Let_def)
  have "e (?M\<lparr>dryFricTable := Some \<lparr>table_m = [], min_m = 0, max_m = 0, step_m = 0,
                                      outbounds_m = Zero\<rparr>\<rparr>) = e ?M \<and>
        p_prev (?M\<lparr>dryFricTable := Some \<lparr>table_m = [], min_m = 0, max_m = 0, step_m = 0,
                                      outbounds_m = Zero\<rparr>\<rparr>) = p_prev ?M"
    using thM cM by blast
  then have exM: "\<exists>s''. createTable id 0 0 0 ?M = Inr s'' \<and> e s'' = 1/5000 \<and> p_prev s'' = 0"
    using cM by (simp add: JointValSet_init_fields)
  show ?thesis
    using fK wK f0 eK pK qK rK fL wL rL eL pL qL exM by blast
qed

subsection \<open>The table of the dry friction\<close>

text \<open>
  Claim C9.  The function sampled by \<open>createTable\<close> is
  \<open>dry(w) = - (wbrk / Z) \<cdot> W0(- (Z / wbrk) \<cdot> (Tsc / den) \<cdot> exp((Z \<cdot> Tc - w) / (wbrk \<cdot> den)))\<close>, for
  any function \<open>W0\<close>.  When \<open>min \<le> max\<close> and \<open>LUTstep > 0\<close>, \<open>createTable\<close> stores in
  \<open>dryFricTable\<close> the table of the samples of \<open>dry\<close> at \<open>min + i \<cdot> LUTstep\<close> over the domain
  \<open>[min, max]\<close> with step \<open>LUTstep\<close> and policy \<open>Zero\<close>.  In a default-initialised struct
  \<open>lambArg_th = - 0.001\<close>, \<open>LUTstep = 0.001\<close>, \<open>min = Z \<cdot> Ts\<close>,
  \<open>max = Z \<cdot> Tc - wbrk \<cdot> den \<cdot> ln(- wbrk / Z \<cdot> den / Tsc \<cdot> lambArg_th)\<close>, and \<open>min < max\<close>.
\<close>

theorem createTable_samples_dry:
  "createTable_dry W0 (Tsc s) (Tc s) (wbrk s) (Z s) (den s) w =
     - (wbrk s / Z s)
       * W0 (- (Z s / wbrk s) * (Tsc s / den s) * exp ((Z s * Tc s - w) / (wbrk s * den s))) \<and>
   (min_j s \<le> max_j s \<and> 0 < LUTstep s \<longrightarrow>
      createTable W0 u1 u2 u3 s =
        Inr (s\<lparr>dryFricTable := Some
               \<lparr>table_m =
                  map (\<lambda>i. (min_j s + real i * LUTstep s,
                            createTable_dry W0 (Tsc s) (Tc s) (wbrk s) (Z s) (den s)
                              (min_j s + real i * LUTstep s)))
                      [0..<nat (\<lfloor>(max_j s - min_j s) / LUTstep s\<rfloor> + 1)],
                min_m = min_j s, max_m = max_j s, step_m = LUTstep s,
                outbounds_m = Zero\<rparr>\<rparr>)) \<and>
   (let d = JointValSet_init a1 a2 a3 a4 a5 a6 a7 a8 in
      lambArg_th d = - 0.001 \<and> LUTstep d = 0.001 \<and>
      min_j d = Z d * Ts d \<and>
      max_j d = Z d * Tc d - wbrk d * den d * ln (- wbrk d / Z d * (den d / Tsc d) * lambArg_th d) \<and>
      min_j d < max_j d)"
proof -
  have A: "createTable_dry W0 (Tsc s) (Tc s) (wbrk s) (Z s) (den s) w =
     - (wbrk s / Z s)
       * W0 (- (Z s / wbrk s) * (Tsc s / den s) * exp ((Z s * Tc s - w) / (wbrk s * den s)))"
    by (simp add: createTable_dry_def Let_def)
  have B: "createTable W0 u1 u2 u3 s =
        Inr (s\<lparr>dryFricTable := Some
               \<lparr>table_m =
                  map (\<lambda>i. (min_j s + real i * LUTstep s,
                            createTable_dry W0 (Tsc s) (Tc s) (wbrk s) (Z s) (den s)
                              (min_j s + real i * LUTstep s)))
                      [0..<nat (\<lfloor>(max_j s - min_j s) / LUTstep s\<rfloor> + 1)],
                min_m = min_j s, max_m = max_j s, step_m = LUTstep s,
                outbounds_m = Zero\<rparr>\<rparr>)"
    if h: "min_j s \<le> max_j s \<and> 0 < LUTstep s"
    unfolding createTable_def Let_def
      LookUpTable_ctor_run[OF conjunct1[OF h] conjunct2[OF h]]
    by simp
  have C: "let d = JointValSet_init a1 a2 a3 a4 a5 a6 a7 a8 in
      lambArg_th d = - 0.001 \<and> LUTstep d = 0.001 \<and>
      min_j d = Z d * Ts d \<and>
      max_j d = Z d * Tc d - wbrk d * den d * ln (- wbrk d / Z d * (den d / Tsc d) * lambArg_th d) \<and>
      min_j d < max_j d"
    unfolding Let_def
    using default_domain[of a1 a2 a3 a4 a5 a6 a7 a8]
    by (simp add: JointValSet_init_fields)
  show ?thesis using A B C by blast
qed

theorem createTable_samples_dry_witness:
  "min_j (JointValSet_init 0 0 0 0 0 0 0 1) \<le> max_j (JointValSet_init 0 0 0 0 0 0 0 1) \<and>
   0 < LUTstep (JointValSet_init 0 0 0 0 0 0 0 1) \<and>
   (\<exists>tbl. createTable id 0 0 0 (JointValSet_init 0 0 0 0 0 0 0 1) =
      Inr ((JointValSet_init 0 0 0 0 0 0 0 1)
            \<lparr>dryFricTable := Some \<lparr>table_m = tbl, min_m = 1/22,
                 max_m = 1/275 - 119/2750 * ln (119/115000), step_m = 1/1000,
                 outbounds_m = Zero\<rparr>\<rparr>) \<and>
      tbl \<noteq> [] \<and> fst (hd tbl) = 1/22)"
proof -
  let ?d = "JointValSet_init 0 0 0 0 0 0 0 1"
  let ?n = "nat (\<lfloor>(max_j ?d - min_j ?d) / LUTstep ?d\<rfloor> + 1)"
  let ?g = "\<lambda>i. (min_j ?d + real i * LUTstep ?d,
                 createTable_dry id (Tsc ?d) (Tc ?d) (wbrk ?d) (Z ?d) (den ?d)
                   (min_j ?d + real i * LUTstep ?d))"
  have lt: "min_j ?d < max_j ?d" by (rule default_domain)
  then have le: "min_j ?d \<le> max_j ?d" by simp
  have st: "0 < LUTstep ?d" by (simp add: JointValSet_init_fields)
  have n: "0 < ?n" using le st by simp
  then have up: "[0..<?n] = 0 # [1..<?n]"
    by (simp add: upt_conv_Cons)
  from createTable_samples_dry[of id ?d _ 0 0 0] le st
  have c: "createTable id 0 0 0 ?d =
        Inr (?d\<lparr>dryFricTable := Some
               \<lparr>table_m = map ?g [0..<?n],
                min_m = min_j ?d, max_m = max_j ?d, step_m = LUTstep ?d,
                outbounds_m = Zero\<rparr>\<rparr>)"
    by blast
  have mm: "min_j ?d = 1/22" "max_j ?d = 1/275 - 119/2750 * ln (119/115000)" "LUTstep ?d = 1/1000"
    by (simp_all add: JointValSet_init_fields)
  have c': "createTable id 0 0 0 ?d =
      Inr (?d\<lparr>dryFricTable := Some \<lparr>table_m = map ?g [0..<?n], min_m = 1/22,
                 max_m = 1/275 - 119/2750 * ln (119/115000), step_m = 1/1000,
                 outbounds_m = Zero\<rparr>\<rparr>)"
    using c unfolding mm .
  have ne: "map ?g [0..<?n] \<noteq> []" unfolding up by simp
  have h: "fst (hd (map ?g [0..<?n])) = 1/22" unfolding up by (simp add: mm)
  show ?thesis
    using le st c' ne h by blast
qed

subsection \<open>The stick regime needs no table\<close>

text \<open>
  Claim C10.  When the predictor torque \<open>T_ast\<close> of a call satisfies
  \<open>- Ts \<le> T_ast \<le> Ts\<close>, the call returns \<open>torqueForce - T_ast\<close> and raises nothing; with any
  other content of \<open>dryFricTable\<close>, an empty pointer or a table that was never built
  included, it returns the same value and leaves the same struct, up to that member.
\<close>

theorem stick_regime_no_table_query:
  "let w = (if firstTime s \<noteq> 0 then 0 else (value_j s - p_prev s) / dt s);
       T = (w + Z s * Kf s * e s) / Z s
   in - Ts s \<le> T \<and> T \<le> Ts s \<longrightarrow>
        fst (setFrictionForces s) = Inr (torqueForce s - T) \<and>
        (\<forall>d. setFrictionForces (s\<lparr>dryFricTable := d\<rparr>) =
              (Inr (torqueForce s - T), (snd (setFrictionForces s))\<lparr>dryFricTable := d\<rparr>))"
proof -
  let ?T = "((if firstTime s \<noteq> 0 then 0 else (value_j s - p_prev s) / dt s) + Z s * Kf s * e s) / Z s"
  have "fst (setFrictionForces s) = Inr (torqueForce s - ?T) \<and>
        (\<forall>d. setFrictionForces (s\<lparr>dryFricTable := d\<rparr>) =
              (Inr (torqueForce s - ?T), (snd (setFrictionForces s))\<lparr>dryFricTable := d\<rparr>))"
    if h: "- Ts s \<le> ?T \<and> ?T \<le> Ts s"
  proof -
    note st = setFrictionForces_stick[OF conjunct1[OF h] conjunct2[OF h]]
    have self: "s\<lparr>dryFricTable := dryFricTable s\<rparr> = s" by simp
    note s0 = st[of "dryFricTable s", unfolded self]
    show ?thesis
      unfolding st s0 by (simp add: Let_def)
  qed
  then show ?thesis unfolding Let_def by blast
qed

theorem stick_regime_no_table_query_witness:
  "- Ts (JointValSet_init 0 0 3 (1/5000) 0 0 0 1) \<le> 1 \<and>
   1 \<le> Ts (JointValSet_init 0 0 3 (1/5000) 0 0 0 1) \<and>
   dryFricTable (JointValSet_init 0 0 3 (1/5000) 0 0 0 1) = None \<and>
   fst (setFrictionForces (JointValSet_init 0 0 3 (1/5000) 0 0 0 1)) = Inr (3 - 1) \<and>
   fst (setFrictionForces ((JointValSet_init 0 0 3 (1/5000) 0 0 0 1)
          \<lparr>dryFricTable := Some (LookUpTable_default 0 0 0)\<rparr>)) = Inr (3 - 1)"
proof -
  let ?K = "JointValSet_init 0 0 3 (1/5000) 0 0 0 1"
  have T: "((if firstTime ?K \<noteq> 0 then 0 else (value_j ?K - p_prev ?K) / dt ?K)
             + Z ?K * Kf ?K * e ?K) / Z ?K = 1"
    by (simp add: JointValSet_init_fields)
  have a: "- Ts ?K \<le> 1" and b: "1 \<le> Ts ?K"
    by (simp_all add: JointValSet_init_fields)
  have n: "dryFricTable ?K = None" by (simp add: JointValSet_init_fields)
  note th = stick_regime_no_table_query[of ?K, unfolded Let_def T]
  have r1: "fst (setFrictionForces ?K) = Inr (3 - 1)"
    using th a b by (simp add: JointValSet_init_fields)
  have "setFrictionForces (?K\<lparr>dryFricTable := Some (LookUpTable_default 0 0 0)\<rparr>) =
      (Inr (torqueForce ?K - 1),
       (snd (setFrictionForces ?K))\<lparr>dryFricTable := Some (LookUpTable_default 0 0 0)\<rparr>)"
    using th a b by blast
  then have r2: "fst (setFrictionForces (?K\<lparr>dryFricTable := Some (LookUpTable_default 0 0 0)\<rparr>))
      = Inr (3 - 1)"
    by (simp add: JointValSet_init_fields)
  show ?thesis using a b n r1 r2 by blast
qed

end
